theory Spec2Isabelle
  imports Complex_Main "HOL-Library.Char_ord" "HOL-Library.List_Lexorder"
    "HOL-Library.Product_Lexorder"
begin

section \<open>Educational analytics: the analysis pipeline of the grade dashboard\<close>

text \<open>
  The development embeds the cleaning stage of \<^verbatim>\<open>src/data_loader.py\<close> and the analysis
  functions of \<^verbatim>\<open>src/analyzer.py\<close>. Floating-point numbers are idealised as reals; a
  value that the dataframe library reports as NaN (the mean of no values, the standard
  deviation of a single value, a missing cell) is \<open>None\<close>.
\<close>

subsection \<open>Text\<close>

text \<open>
  A Python \<^verbatim>\<open>str\<close> that the code searches or builds is the list of its Unicode code
  points. Identifiers of students, subjects and groups are only compared, so they are
  plain \<open>string\<close>s.
\<close>

type_synonym ustr = "nat list"

fun starts_with :: "'a list \<Rightarrow> 'a list \<Rightarrow> bool" where
  "starts_with [] cs = True"
| "starts_with (k # ks) [] = False"
| "starts_with (k # ks) (c # cs) = (k = c \<and> starts_with ks cs)"

text \<open>\<^verbatim>\<open>key in factor\<close> on strings: \<open>key\<close> occurs in \<open>factor\<close> as a contiguous block.\<close>

fun py_in :: "'a list \<Rightarrow> 'a list \<Rightarrow> bool" where
  "py_in k [] = (k = [])"
| "py_in k (c # cs) = (starts_with k (c # cs) \<or> py_in k cs)"

subsection \<open>Recommendations (\<^verbatim>\<open>generate_recommendations\<close>)\<close>

text \<open>
  The dictionary \<^verbatim>\<open>recommendations_map\<close> in the order of its literal, which is the order
  in which \<^verbatim>\<open>.items()\<close> yields it. Keys and recommendations are Russian text, given by
  code points.
\<close>

definition key_low_average :: ustr where
  \<comment> \<open>the key for "low average grade", 21 code points\<close>
  "key_low_average =
     [1053, 1080, 1079, 1082, 1072, 1103, 32, 1089, 1088, 1077, 1076, 1085, 1103, 1103, 32,
      1086, 1094, 1077, 1085, 1082, 1072]"

definition rec_low_average_1 :: ustr where
  "rec_low_average_1 =
     [1054, 1073, 1088, 1072, 1090, 1080, 1090, 1100, 1089, 1103, 32, 1079, 1072, 32, 1087,
      1086, 1084, 1086, 1097, 1100, 1102, 32, 1082, 32, 1087, 1088, 1077, 1087, 1086, 1076,
      1072, 1074, 1072, 1090, 1077, 1083, 1102]"

definition rec_low_average_2 :: ustr where
  "rec_low_average_2 =
     [1057, 1086, 1089, 1090, 1072, 1074, 1080, 1090, 1100, 32, 1080, 1085, 1076, 1080,
      1074, 1080, 1076, 1091, 1072, 1083, 1100, 1085, 1099, 1081, 32, 1087, 1083, 1072,
      1085, 32, 1086, 1073, 1091, 1095, 1077, 1085, 1080, 1103]"

definition rec_low_average_3 :: ustr where
  "rec_low_average_3 =
     [1059, 1074, 1077, 1083, 1080, 1095, 1080, 1090, 1100, 32, 1074, 1088, 1077, 1084,
      1103, 32, 1087, 1086, 1076, 1075, 1086, 1090, 1086, 1074, 1082, 1080, 32, 1082, 32,
      1079, 1072, 1085, 1103, 1090, 1080, 1103, 1084]"

definition key_high_variability :: ustr where
  \<comment> \<open>the key for "high variability of grades", 27 code points\<close>
  "key_high_variability =
     [1042, 1099, 1089, 1086, 1082, 1072, 1103, 32, 1080, 1079, 1084, 1077, 1085, 1095,
      1080, 1074, 1086, 1089, 1090, 1100, 32, 1086, 1094, 1077, 1085, 1086, 1082]"

definition rec_high_variability_1 :: ustr where
  "rec_high_variability_1 =
     [1055, 1088, 1086, 1072, 1085, 1072, 1083, 1080, 1079, 1080, 1088, 1086, 1074, 1072,
      1090, 1100, 32, 1087, 1088, 1080, 1095, 1080, 1085, 1099, 32, 1082, 1086, 1083, 1077,
      1073, 1072, 1085, 1080, 1081, 32, 1091, 1089, 1087, 1077, 1074, 1072, 1077, 1084,
      1086, 1089, 1090, 1080]"

definition rec_high_variability_2 :: ustr where
  "rec_high_variability_2 =
     [1056, 1072, 1079, 1088, 1072, 1073, 1086, 1090, 1072, 1090, 1100, 32, 1089, 1090,
      1088, 1072, 1090, 1077, 1075, 1080, 1102, 32, 1089, 1090, 1072, 1073, 1080, 1083,
      1100, 1085, 1086, 1081, 32, 1087, 1086, 1076, 1075, 1086, 1090, 1086, 1074, 1082,
      1080]"

definition rec_high_variability_3 :: ustr where
  "rec_high_variability_3 =
     [1054, 1073, 1088, 1072, 1090, 1080, 1090, 1100, 32, 1074, 1085, 1080, 1084, 1072,
      1085, 1080, 1077, 32, 1085, 1072, 32, 1086, 1088, 1075, 1072, 1085, 1080, 1079, 1072,
      1094, 1080, 1102, 32, 1074, 1088, 1077, 1084, 1077, 1085, 1080]"

definition key_declining_trend :: ustr where
  \<comment> \<open>the key for "declining performance", 21 code points\<close>
  "key_declining_trend =
     [1057, 1085, 1080, 1078, 1077, 1085, 1080, 1077, 32, 1091, 1089, 1087, 1077, 1074,
      1072, 1077, 1084, 1086, 1089, 1090, 1080]"

definition rec_declining_trend_1 :: ustr where
  "rec_declining_trend_1 =
     [1055, 1088, 1086, 1074, 1077, 1089, 1090, 1080, 32, 1076, 1080, 1072, 1075, 1085,
      1086, 1089, 1090, 1080, 1082, 1091, 32, 1087, 1088, 1080, 1095, 1080, 1085, 32, 1089,
      1085, 1080, 1078, 1077, 1085, 1080, 1103, 32, 1084, 1086, 1090, 1080, 1074, 1072,
      1094, 1080, 1080]"

definition rec_declining_trend_2 :: ustr where
  "rec_declining_trend_2 =
     [1059, 1089, 1090, 1072, 1085, 1086, 1074, 1080, 1090, 1100, 32, 1082, 1088, 1072,
      1090, 1082, 1086, 1089, 1088, 1086, 1095, 1085, 1099, 1077, 32, 1091, 1095, 1077,
      1073, 1085, 1099, 1077, 32, 1094, 1077, 1083, 1080]"

definition rec_declining_trend_3 :: ustr where
  "rec_declining_trend_3 =
     [1059, 1074, 1077, 1083, 1080, 1095, 1080, 1090, 1100, 32, 1095, 1072, 1089, 1090,
      1086, 1090, 1091, 32, 1089, 1072, 1084, 1086, 1087, 1088, 1086, 1074, 1077, 1088,
      1086, 1082]"

definition key_sharp_drop :: ustr where
  \<comment> \<open>the key for "sharp drop of performance", 27 code points\<close>
  "key_sharp_drop =
     [1056, 1077, 1079, 1082, 1086, 1077, 32, 1087, 1072, 1076, 1077, 1085, 1080, 1077, 32,
      1091, 1089, 1087, 1077, 1074, 1072, 1077, 1084, 1086, 1089, 1090, 1080]"

definition rec_sharp_drop_1 :: ustr where
  "rec_sharp_drop_1 =
     [1057, 1088, 1086, 1095, 1085, 1086, 32, 1086, 1073, 1088, 1072, 1090, 1080, 1090,
      1100, 1089, 1103, 32, 1082, 32, 1082, 1091, 1088, 1072, 1090, 1086, 1088, 1091, 32,
      1075, 1088, 1091, 1087, 1087, 1099]"

definition rec_sharp_drop_2 :: ustr where
  "rec_sharp_drop_2 =
     [1055, 1088, 1086, 1074, 1077, 1089, 1090, 1080, 32, 1080, 1085, 1076, 1080, 1074,
      1080, 1076, 1091, 1072, 1083, 1100, 1085, 1091, 1102, 32, 1082, 1086, 1085, 1089,
      1091, 1083, 1100, 1090, 1072, 1094, 1080, 1102, 32, 1089, 32, 1087, 1088, 1077, 1087,
      1086, 1076, 1072, 1074, 1072, 1090, 1077, 1083, 1077, 1084]"

definition rec_sharp_drop_3 :: ustr where
  "rec_sharp_drop_3 =
     [1055, 1077, 1088, 1077, 1089, 1084, 1086, 1090, 1088, 1077, 1090, 1100, 32, 1091,
      1095, 1077, 1073, 1085, 1091, 1102, 32, 1085, 1072, 1075, 1088, 1091, 1079, 1082,
      1091]"

definition key_low_attendance :: ustr where
  \<comment> \<open>the key for "low attendance", 19 code points\<close>
  "key_low_attendance =
     [1053, 1080, 1079, 1082, 1072, 1103, 32, 1087, 1086, 1089, 1077, 1097, 1072, 1077,
      1084, 1086, 1089, 1090, 1100]"

definition rec_low_attendance_1 :: ustr where
  "rec_low_attendance_1 =
     [1055, 1088, 1086, 1072, 1085, 1072, 1083, 1080, 1079, 1080, 1088, 1086, 1074, 1072,
      1090, 1100, 32, 1087, 1088, 1080, 1095, 1080, 1085, 1099, 32, 1087, 1088, 1086, 1087,
      1091, 1089, 1082, 1086, 1074]"

definition rec_low_attendance_2 :: ustr where
  "rec_low_attendance_2 =
     [1057, 1086, 1089, 1090, 1072, 1074, 1080, 1090, 1100, 32, 1075, 1088, 1072, 1092,
      1080, 1082, 32, 1087, 1086, 1089, 1077, 1097, 1077, 1085, 1080, 1103, 32, 1079, 1072,
      1085, 1103, 1090, 1080, 1081]"

definition rec_low_attendance_3 :: ustr where
  "rec_low_attendance_3 =
     [1059, 1089, 1090, 1072, 1085, 1086, 1074, 1080, 1090, 1100, 32, 1089, 1080, 1089,
      1090, 1077, 1084, 1091, 32, 1085, 1072, 1087, 1086, 1084, 1080, 1085, 1072, 1085,
      1080, 1081]"

definition recommendations_map :: "(ustr \<times> ustr list) list" where
  "recommendations_map =
     [(key_low_average, [rec_low_average_1, rec_low_average_2, rec_low_average_3]),
      (key_high_variability, [rec_high_variability_1, rec_high_variability_2, rec_high_variability_3]),
      (key_declining_trend, [rec_declining_trend_1, rec_declining_trend_2, rec_declining_trend_3]),
      (key_sharp_drop, [rec_sharp_drop_1, rec_sharp_drop_2, rec_sharp_drop_3]),
      (key_low_attendance, [rec_low_attendance_1, rec_low_attendance_2, rec_low_attendance_3])]"

text \<open>
  The first loop: for every factor, for every entry of the dictionary whose key occurs in
  the factor, \<^verbatim>\<open>recommendations.extend(rec_list)\<close>.
\<close>

definition extend_matching :: "(ustr \<times> ustr list) list \<Rightarrow> ustr \<Rightarrow> ustr list \<Rightarrow> ustr list" where
  "extend_matching m factor recommendations =
     fold (\<lambda>(key, rec_list) acc. if py_in key factor then acc @ rec_list else acc)
          m recommendations"

definition collect_recommendations :: "(ustr \<times> ustr list) list \<Rightarrow> ustr list \<Rightarrow> ustr list" where
  "collect_recommendations m risk_factors = fold (extend_matching m) risk_factors []"

text \<open>
  The second loop: \<^verbatim>\<open>if rec not in unique_recommendations: unique_recommendations.append(rec)\<close>.
\<close>

definition unique_step :: "'a \<Rightarrow> 'a list \<Rightarrow> 'a list" where
  "unique_step r unique = (if r \<in> set unique then unique else unique @ [r])"

definition unique_recommendations :: "'a list \<Rightarrow> 'a list" where
  "unique_recommendations recommendations = fold unique_step recommendations []"

definition generate_recommendations :: "ustr list \<Rightarrow> ustr list" where
  "generate_recommendations risk_factors =
     take 5 (unique_recommendations (collect_recommendations recommendations_map risk_factors))"

text \<open>
  The specification's wording of the same result: the concatenation of the lists of the
  matched keys, de-duplicated keeping the first occurrence of each entry, cut to five.
\<close>

definition matched_lists :: "(ustr \<times> ustr list) list \<Rightarrow> ustr \<Rightarrow> ustr list" where
  "matched_lists m factor = concat (map snd (filter (\<lambda>(key, rec_list). py_in key factor) m))"

definition keep_first_occurrences :: "'a list \<Rightarrow> 'a list" where
  "keep_first_occurrences xs = rev (remdups (rev xs))"

definition spec_recommendations :: "ustr list \<Rightarrow> ustr list" where
  "spec_recommendations risk_factors =
     take 5 (keep_first_occurrences (concat (map (matched_lists recommendations_map) risk_factors)))"

subsection \<open>Errors\<close>

text \<open>
  An exception is a value. \<open>KeyError\<close> carries the missing column (\<open>KeyErrors\<close> the list
  of missing columns that \<^verbatim>\<open>dropna\<close> reports), the others the text that \<^verbatim>\<open>str(e)\<close> gives.
\<close>

datatype py_error =
    KeyError string
  | KeyErrors "string list"
  | LinAlgError ustr
  | ZeroDivisionError ustr
  | IndexError ustr
  | LibraryError ustr

definition ascii :: "string \<Rightarrow> ustr" where
  "ascii s = map of_char s"

fun list_repr :: "string list \<Rightarrow> string" where
  "list_repr [] = []"
| "list_repr [c] = [CHR 39] @ c @ [CHR 39]"
| "list_repr (c # cs) = [CHR 39] @ c @ [CHR 39] @ '', '' @ list_repr cs"

fun error_text :: "py_error \<Rightarrow> ustr" where
  "error_text (KeyError c) = [39] @ ascii c @ [39]"
| "error_text (KeyErrors cs) = ascii (''['' @ list_repr cs @ '']'')"
| "error_text (LinAlgError m) = m"
| "error_text (ZeroDivisionError m) = m"
| "error_text (IndexError m) = m"
| "error_text (LibraryError m) = m"

definition bind_result :: "'e + 'a \<Rightarrow> ('a \<Rightarrow> 'e + 'b) \<Rightarrow> 'e + 'b" where
  "bind_result r f = (case r of Inl e \<Rightarrow> Inl e | Inr v \<Rightarrow> f v)"

text \<open>A loop whose body may raise: the first exception ends it.\<close>

fun for_each :: "('a \<Rightarrow> 'e + 'b) \<Rightarrow> 'a list \<Rightarrow> 'e + 'b list" where
  "for_each f [] = Inr []"
| "for_each f (x # xs) =
     (case f x of
        Inl e \<Rightarrow> Inl e
      | Inr y \<Rightarrow> (case for_each f xs of Inl e \<Rightarrow> Inl e | Inr ys \<Rightarrow> Inr (y # ys)))"

subsection \<open>The data table\<close>

text \<open>
  A calendar date (year, month, day). The ISO week of a date is computed by the
  dataframe library and is a parameter \<open>iso_week\<close> of the functions that derive it.
\<close>

type_synonym date = "int \<times> nat \<times> nat"

text \<open>
  One row of the table of grades. A table names the columns it has; the cell of a row in
  a column that the table does not have is never read.
\<close>

record grade_record =
  student_id :: string
  subject :: string
  grade :: real
  grp :: string
  week :: int
  date :: date
  attendance :: real

record table =
  columns :: "string list"
  rows :: "grade_record list"

definition has_column :: "table \<Rightarrow> string \<Rightarrow> bool" where
  "has_column df c = (c \<in> set (columns df))"

text \<open>\<^verbatim>\<open>df['week'] = df['date'].dt.isocalendar().week\<close>: a new last column, filled per row.\<close>

definition assign_week :: "(date \<Rightarrow> int) \<Rightarrow> table \<Rightarrow> table" where
  "assign_week iso_week df =
     \<lparr>columns = (if has_column df ''week'' then columns df else columns df @ [''week'']),
      rows = map (\<lambda>r. r\<lparr>week := iso_week (date r)\<rparr>) (rows df)\<rparr>"

text \<open>
  The week is derived when the table has a date column and no week column. In
  \<open>analyze_performance\<close> the test is nested (\<^verbatim>\<open>if 'week' in df.columns or 'date' in df.columns\<close>,
  then \<^verbatim>\<open>if 'week' not in df.columns\<close>), which is the same condition.
\<close>

definition ensure_week :: "(date \<Rightarrow> int) \<Rightarrow> table \<Rightarrow> table" where
  "ensure_week iso_week df =
     (if \<not> has_column df ''week'' \<and> has_column df ''date''
      then assign_week iso_week df else df)"

subsection \<open>Series and group-by operations of the dataframe library\<close>

definition series_mean :: "real list \<Rightarrow> real option" where
  "series_mean xs = (if xs = [] then None else Some (sum_list xs / real (length xs)))"

definition series_median :: "real list \<Rightarrow> real option" where
  "series_median xs =
     (if xs = [] then None
      else let s = sort xs; n = length xs
           in Some (if odd n then s ! (n div 2) else (s ! (n div 2 - 1) + s ! (n div 2)) / 2))"

text \<open>The sample standard deviation (\<^verbatim>\<open>ddof=1\<close>): undefined for fewer than two values.\<close>

definition sample_variance :: "real list \<Rightarrow> real" where
  "sample_variance xs =
     (let m = sum_list xs / real (length xs)
      in sum_list (map (\<lambda>x. (x - m)\<^sup>2) xs) / (real (length xs) - 1))"

definition series_std :: "real list \<Rightarrow> real option" where
  "series_std xs = (if length xs < 2 then None else Some (sqrt (sample_variance xs)))"

definition series_min :: "real list \<Rightarrow> real option" where
  "series_min xs = (case xs of [] \<Rightarrow> None | x # rest \<Rightarrow> Some (fold min rest x))"

definition series_max :: "real list \<Rightarrow> real option" where
  "series_max xs = (case xs of [] \<Rightarrow> None | x # rest \<Rightarrow> Some (fold max rest x))"

text \<open>\<^verbatim>\<open>.unique()\<close> keeps the order of first appearance; \<^verbatim>\<open>.nunique()\<close> counts.\<close>

definition unique :: "'a list \<Rightarrow> 'a list" where
  "unique xs = keep_first_occurrences xs"

definition nunique :: "'a list \<Rightarrow> nat" where
  "nunique xs = length (remdups xs)"

text \<open>\<^verbatim>\<open>.value_counts().sort_index()\<close>: each value with its frequency, by ascending value.\<close>

definition value_counts :: "real list \<Rightarrow> (real \<times> nat) list" where
  "value_counts xs = map (\<lambda>v. (v, count_list xs v)) (sort (remdups xs))"

text \<open>The mean of a boolean mask, times 100: the share of \<open>True\<close> in percent.\<close>

definition percent_true :: "bool list \<Rightarrow> real option" where
  "percent_true bs =
     (if bs = [] then None
      else Some (real (length (filter (\<lambda>b. b) bs)) / real (length bs) * 100))"

text \<open>
  \<^verbatim>\<open>groupby(key)\<close> forms one group for each key that occurs, in ascending key order, so
  the mean of a group never divides by zero.
\<close>

definition group_keys :: "('r \<Rightarrow> 'k::linorder) \<Rightarrow> 'r list \<Rightarrow> 'k list" where
  "group_keys key rs = sort (remdups (map key rs))"

definition group_mean :: "real list \<Rightarrow> real" where
  "group_mean xs = sum_list xs / real (length xs)"

text \<open>\<^verbatim>\<open>groupby('week')['grade'].mean()\<close>: the mean grade of each week, by ascending week.\<close>

definition weekly_grades :: "grade_record list \<Rightarrow> (int \<times> real) list" where
  "weekly_grades rs =
     map (\<lambda>w. (w, group_mean (map grade (filter (\<lambda>r. week r = w) rs)))) (group_keys week rs)"

text \<open>\<^verbatim>\<open>.round(2)\<close>: to two decimals, a tie going to the even neighbour.\<close>

definition round_half_even :: "real \<Rightarrow> int" where
  "round_half_even x =
     (let f = \<lfloor>x\<rfloor>; d = x - of_int f
      in if d < 1 / 2 then f else if 1 / 2 < d then f + 1 else if even f then f else f + 1)"

definition round2 :: "real \<Rightarrow> real" where
  "round2 x = of_int (round_half_even (x * 100)) / 100"

subsection \<open>The least-squares line (\<^verbatim>\<open>np.polyfit(x, y, 1)\<close>)\<close>

text \<open>
  The slope and the intercept of the line that minimises the sum of squared residuals,
  from the normal equations. The line is determined when the x-values are not all equal.
  Otherwise the model reports an error: of the calls below only the one in
  \<open>identify_at_risk_students\<close> can pass such x-values (a single point), and there the
  library divides by a zero column norm before it solves.
\<close>

definition svd_message :: ustr where
  "svd_message = ascii ''SVD did not converge in Linear Least Squares''"

definition polyfit :: "real list \<Rightarrow> real list \<Rightarrow> py_error + (real \<times> real)" where
  "polyfit x y =
     (let n = real (length x);
          sx = sum_list x;
          sy = sum_list y;
          sxx = sum_list (map (\<lambda>a. a * a) x);
          sxy = sum_list (map (\<lambda>(a, b). a * b) (zip x y));
          d = n * sxx - sx * sx
      in if d = 0 then Inl (LinAlgError svd_message)
         else let slope = (n * sxy - sx * sy) / d
              in Inr (slope, (sy - slope * sx) / n))"



text \<open>\<^verbatim>\<open>np.arange(n)\<close> as reals.\<close>

definition arange :: "nat \<Rightarrow> real list" where
  "arange n = map real [0..<n]"

text \<open>Python's \<^verbatim>\<open>min(a, b)\<close> and \<^verbatim>\<open>max(a, b)\<close>: the first argument unless the second beats it.\<close>

definition py_min :: "real \<Rightarrow> real \<Rightarrow> real" where
  "py_min a b = (if b < a then b else a)"

definition py_max :: "real \<Rightarrow> real \<Rightarrow> real" where
  "py_max a b = (if a < b then b else a)"

subsection \<open>Library calls that are parameters\<close>

text \<open>
  The pivot table of mean grades (one row per student, one column per subject, an empty
  cell where the student has no grade in the subject), the correlation matrix, the
  feature scaler, the k-means clustering, the ISO week of a date and the clock are
  computed by libraries. They are the fields of a \<open>library\<close>; each call that can raise
  returns a sum. \<open>lib_fit_predict\<close> gives the cluster of each row by its position.
\<close>

record pivot =
  p_index :: "string list"
  p_columns :: "string list"
  p_values :: "real option list list"

record library =
  lib_iso_week :: "date \<Rightarrow> int"
  lib_now :: string
  lib_pivot_table :: "table \<Rightarrow> py_error + pivot"
  lib_corr :: "pivot \<Rightarrow> py_error + (nat \<Rightarrow> nat \<Rightarrow> real option)"
  lib_fit_transform :: "(real \<times> real \<times> real) list \<Rightarrow> py_error + (real \<times> real \<times> real) list"
  lib_fit_predict :: "nat \<Rightarrow> (real \<times> real \<times> real) list \<Rightarrow> py_error + (nat \<Rightarrow> nat)"

subsection \<open>Performance analysis (\<^verbatim>\<open>analyze_performance\<close>)\<close>

text \<open>Reading a column that the table lacks raises \<open>KeyError\<close>; the first such read decides.\<close>

definition missing_column :: "table \<Rightarrow> string list \<Rightarrow> string option" where
  "missing_column df cs =
     (case filter (\<lambda>c. \<not> has_column df c) cs of [] \<Rightarrow> None | c # rest \<Rightarrow> Some c)"

paragraph \<open>1. Overall statistics\<close>

record overall_stats =
  total_records :: nat
  total_students :: nat
  total_subjects :: nat
  mean_grade :: "real option"
  median_grade :: "real option"
  std_grade :: "real option"
  min_grade :: "real option"
  max_grade :: "real option"
  grade_distribution :: "(real \<times> nat) list"
  total_groups :: "nat option"

definition overall_statistics :: "table \<Rightarrow> overall_stats" where
  "overall_statistics df =
     (let gs = map grade (rows df)
      in \<lparr>total_records = length (rows df),
          total_students = nunique (map student_id (rows df)),
          total_subjects = nunique (map subject (rows df)),
          mean_grade = series_mean gs,
          median_grade = series_median gs,
          std_grade = series_std gs,
          min_grade = series_min gs,
          max_grade = series_max gs,
          grade_distribution = value_counts gs,
          total_groups =
            (if has_column df ''group'' then Some (nunique (map grp (rows df))) else None)\<rparr>)"

paragraph \<open>2. Statistics by subject\<close>

record subject_stats =
  s_mean_grade :: "real option"
  s_median_grade :: "real option"
  s_std_grade :: "real option"
  s_student_count :: nat
  s_record_count :: nat
  pass_rate :: "real option"
  excellent_rate :: "real option"
  s_grade_distribution :: "(real \<times> nat) list"

definition subject_statistics :: "grade_record list \<Rightarrow> subject_stats" where
  "subject_statistics subject_data =
     (let gs = map grade subject_data
      in \<lparr>s_mean_grade = series_mean gs,
          s_median_grade = series_median gs,
          s_std_grade = series_std gs,
          s_student_count = nunique (map student_id subject_data),
          s_record_count = length subject_data,
          pass_rate = percent_true (map (\<lambda>g. 4 \<le> g) gs),
          excellent_rate = percent_true (map (\<lambda>g. 9 \<le> g) gs),
          s_grade_distribution = value_counts gs\<rparr>)"

definition by_subject_statistics :: "table \<Rightarrow> (string \<times> subject_stats) list" where
  "by_subject_statistics df =
     map (\<lambda>s. (s, subject_statistics (filter (\<lambda>r. subject r = s) (rows df))))
         (unique (map subject (rows df)))"

paragraph \<open>3. Statistics by group\<close>

text \<open>
  \<open>attendance_rate\<close> is Python's \<^verbatim>\<open>None\<close> (the outer \<open>None\<close>) when the table has no
  attendance column.
\<close>

record group_stats =
  g_mean_grade :: "real option"
  g_median_grade :: "real option"
  g_student_count :: nat
  g_subject_count :: nat
  g_pass_rate :: "real option"
  attendance_rate :: "real option option"

definition group_statistics :: "table \<Rightarrow> grade_record list \<Rightarrow> group_stats" where
  "group_statistics df group_data =
     (let gs = map grade group_data
      in \<lparr>g_mean_grade = series_mean gs,
          g_median_grade = series_median gs,
          g_student_count = nunique (map student_id group_data),
          g_subject_count = nunique (map subject group_data),
          g_pass_rate = percent_true (map (\<lambda>g. 4 \<le> g) gs),
          attendance_rate =
            (if has_column df ''attendance''
             then Some (map_option (\<lambda>m. m * 100) (series_mean (map attendance group_data)))
             else None)\<rparr>)"

definition by_group_statistics :: "table \<Rightarrow> (string \<times> group_stats) list" where
  "by_group_statistics df =
     (if has_column df ''group''
      then map (\<lambda>g. (g, group_statistics df (filter (\<lambda>r. grp r = g) (rows df))))
               (unique (map grp (rows df)))
      else [])"

paragraph \<open>4. Students at risk\<close>

text \<open>
  \<^verbatim>\<open>df.groupby('student_id').agg(...).round(2)\<close>: one row per student, by ascending
  identifier. The standard deviation of a single grade is undefined.
\<close>

record student_stat =
  ss_student_id :: string
  avg_grade :: real
  grade_count :: nat
  grade_std :: "real option"
  subject_count :: nat

definition student_statistics :: "grade_record list \<Rightarrow> student_stat list" where
  "student_statistics rs =
     map (\<lambda>sid.
            let student_data = filter (\<lambda>r. student_id r = sid) rs;
                gs = map grade student_data
            in \<lparr>ss_student_id = sid,
                avg_grade = round2 (group_mean gs),
                grade_count = length gs,
                grade_std = map_option round2 (series_std gs),
                subject_count = nunique (map subject student_data)\<rparr>)
         (group_keys student_id rs)"

record risk_info =
  ri_student_id :: string
  ri_avg_grade :: real
  ri_grade_count :: nat
  ri_grade_std :: "real option"
  ri_subject_count :: nat
  risk_level :: string
  groups :: "string list option"
  trend :: "string option"
  trend_slope :: "real option"

text \<open>
  The trend of one student at risk. The week derived from the date is written to the
  student's own rows (\<^verbatim>\<open>student_data\<close>), not to the table.
\<close>

definition student_trend :: "(date \<Rightarrow> int) \<Rightarrow> table \<Rightarrow> string \<Rightarrow> py_error + (string \<times> real) option" where
  "student_trend iso_week df sid =
     (if has_column df ''week'' \<or> has_column df ''date'' then
        let student_data = filter (\<lambda>r. student_id r = sid) (rows df);
            student_data =
              (if \<not> has_column df ''week'' \<and> has_column df ''date''
               then map (\<lambda>r. r\<lparr>week := iso_week (date r)\<rparr>) student_data
               else student_data);
            weekly = weekly_grades student_data
        in if 1 < length weekly then
             bind_result (polyfit (arange (length weekly)) (map snd weekly))
               (\<lambda>(slope, intercept).
                  Inr (Some (if 0.1 < slope then ''positive''
                             else if slope < - 0.1 then ''negative'' else ''stable'',
                             slope)))
           else Inr None
      else Inr None)"

definition risk_student_info :: "(date \<Rightarrow> int) \<Rightarrow> table \<Rightarrow> student_stat \<Rightarrow> py_error + risk_info" where
  "risk_student_info iso_week df student =
     bind_result (student_trend iso_week df (ss_student_id student))
       (\<lambda>t. Inr \<lparr>ri_student_id = ss_student_id student,
                 ri_avg_grade = avg_grade student,
                 ri_grade_count = grade_count student,
                 ri_grade_std = grade_std student,
                 ri_subject_count = subject_count student,
                 risk_level = (if avg_grade student < 4.0 then ''high'' else ''medium''),
                 groups =
                   (if has_column df ''group''
                    then Some (unique (map grp
                           (filter (\<lambda>r. student_id r = ss_student_id student) (rows df))))
                    else None),
                 trend = map_option fst t,
                 trend_slope = map_option snd t\<rparr>)"

paragraph \<open>5. Trends\<close>

record trend_line =
  slope :: real
  intercept :: real
  direction :: string
  prediction_next_week :: real

record trends =
  weekly :: "(int list \<times> real list) option"
  overall_trend :: "trend_line option"

definition trend_analysis :: "table \<Rightarrow> py_error + trends" where
  "trend_analysis df =
     (if has_column df ''week'' then
        let weekly_trend = weekly_grades (rows df);
            w = Some (map fst weekly_trend, map (\<lambda>(k, g). round2 g) weekly_trend)
        in if 1 < length weekly_trend then
             bind_result (polyfit (arange (length weekly_trend)) (map snd weekly_trend))
               (\<lambda>(sl, ic).
                  Inr \<lparr>weekly = w,
                       overall_trend = Some
                         \<lparr>slope = sl, intercept = ic,
                          direction = (if 0.05 < sl then ''improving''
                                       else if sl < - 0.05 then ''declining'' else ''stable''),
                          prediction_next_week = sl * real (length weekly_trend) + ic\<rparr>\<rparr>)
           else Inr \<lparr>weekly = w, overall_trend = None\<rparr>
      else Inr \<lparr>weekly = None, overall_trend = None\<rparr>)"

paragraph \<open>6. Correlations between subjects\<close>

record correlation =
  subject1 :: string
  subject2 :: string
  corr_value :: real
  strength :: string

text \<open>\<^verbatim>\<open>.dropna(thresh=3)\<close>: keep the rows with at least three cells that hold a value.\<close>

definition dropna_thresh :: "nat \<Rightarrow> pivot \<Rightarrow> pivot" where
  "dropna_thresh thresh p =
     (let kept = filter (\<lambda>(i, vs). thresh \<le> length (filter (\<lambda>v. v \<noteq> None) vs))
                        (zip (p_index p) (p_values p))
      in p\<lparr>p_index := map fst kept, p_values := map snd kept\<rparr>)"

definition correlation_pairs :: "string list \<Rightarrow> (nat \<Rightarrow> nat \<Rightarrow> real option) \<Rightarrow> correlation list" where
  "correlation_pairs cols corr_matrix =
     concat (map (\<lambda>(i, j).
                    case corr_matrix i j of
                      None \<Rightarrow> []
                    | Some v \<Rightarrow>
                        if 0.3 < \<bar>v\<bar>
                        then [\<lparr>subject1 = cols ! i, subject2 = cols ! j, corr_value = v,
                               strength = (if 0.7 < \<bar>v\<bar> then ''strong''
                                           else if 0.5 < \<bar>v\<bar> then ''moderate'' else ''weak'')\<rparr>]
                        else [])
                 (concat (map (\<lambda>i. map (\<lambda>j. (i, j)) [i + 1..<length cols]) [0..<length cols])))"

text \<open>
  The body of the first \<^verbatim>\<open>try\<close>. \<open>Inr None\<close>: the body ends without setting the field.
  The sort is stable and descending by the absolute value.
\<close>

definition correlation_analysis :: "library \<Rightarrow> table \<Rightarrow> py_error + correlation list option" where
  "correlation_analysis lib df =
     bind_result (lib_pivot_table lib df)
       (\<lambda>pt. let pivot_data = dropna_thresh 3 pt
             in if 1 < length (p_columns pivot_data) \<and> 5 < length (p_index pivot_data) then
                  bind_result (lib_corr lib pivot_data)
                    (\<lambda>corr_matrix.
                       Inr (Some (take 10 (sort_key (\<lambda>c. - \<bar>corr_value c\<bar>)
                                  (correlation_pairs (p_columns pivot_data) corr_matrix)))))
                else Inr None)"

paragraph \<open>7. Clusters of students\<close>

record cluster_info =
  c_student_count :: nat
  avg_grade_mean :: "real option"
  avg_grade_std :: "real option"
  student_ids :: "string list"

text \<open>The body of the second \<^verbatim>\<open>try\<close>.\<close>

definition cluster_analysis :: "library \<Rightarrow> student_stat list \<Rightarrow> py_error + (nat \<times> cluster_info) list option" where
  "cluster_analysis lib student_stats =
     (if 10 \<le> length student_stats then
        let cluster_features =
              map (\<lambda>s. (avg_grade s, real (grade_count s),
                         (case grade_std s of None \<Rightarrow> 0 | Some v \<Rightarrow> v))) student_stats
        in bind_result (lib_fit_transform lib cluster_features)
             (\<lambda>scaled_features.
                let n_clusters = min 4 (length student_stats div 3)
                in bind_result (lib_fit_predict lib n_clusters scaled_features)
                     (\<lambda>clusters.
                        let labelled = zip student_stats (map clusters [0..<length student_stats])
                        in Inr (Some (map (\<lambda>cluster_id.
                               let cluster_data =
                                     map fst (filter (\<lambda>(s, c). c = cluster_id) labelled)
                               in (cluster_id,
                                   \<lparr>c_student_count = length cluster_data,
                                    avg_grade_mean = series_mean (map avg_grade cluster_data),
                                    avg_grade_std = series_std (map avg_grade cluster_data),
                                    student_ids = take 10 (map ss_student_id cluster_data)\<rparr>))
                             [0..<n_clusters]))))
      else Inr None)"

paragraph \<open>The whole analysis\<close>

text \<open>
  A best-effort field holds the structured result or, when its computation raised, a
  message; it is absent (\<open>None\<close>) when the computation was skipped.
\<close>

datatype 'a best_effort = Structured 'a | Diagnostic ustr

definition correlations_failed :: ustr where
  \<comment> \<open>"could not compute the correlations: "\<close>
  "correlations_failed =
     [1053, 1077, 32, 1091, 1076, 1072, 1083, 1086, 1089, 1100, 32, 1074, 1099, 1095, 1080,
      1089, 1083, 1080, 1090, 1100, 32, 1082, 1086, 1088, 1088, 1077, 1083, 1103, 1094,
      1080, 1080, 58, 32]"

definition clustering_failed :: ustr where
  \<comment> \<open>"could not perform the clustering: "\<close>
  "clustering_failed =
     [1053, 1077, 32, 1091, 1076, 1072, 1083, 1086, 1089, 1100, 32, 1074, 1099, 1087, 1086,
      1083, 1085, 1080, 1090, 1100, 32, 1082, 1083, 1072, 1089, 1090, 1077, 1088, 1080,
      1079, 1072, 1094, 1080, 1102, 58, 32]"

definition best_effort :: "ustr \<Rightarrow> py_error + 'a option \<Rightarrow> 'a best_effort option" where
  "best_effort failed r =
     (case r of
        Inl e \<Rightarrow> Some (Diagnostic (failed @ error_text e))
      | Inr None \<Rightarrow> None
      | Inr (Some v) \<Rightarrow> Some (Structured v))"

record analysis =
  overall :: overall_stats
  by_subject :: "(string \<times> subject_stats) list"
  by_group :: "(string \<times> group_stats) list"
  risk_students :: "risk_info list"
  trends_of :: trends
  correlations :: "correlation list best_effort option"
  clusters :: "(nat \<times> cluster_info) list best_effort option"
  timestamp :: string

text \<open>
  The table that the caller passed is an object that the function can change, so the
  function returns it next to the result. Step 5 assigns the week column to the caller's
  table itself (\<open>ensure_week\<close>); the steps after it read that table, and the trend is
  analysed when it has a week column, that is, when the caller's table had a week or a
  date column.
\<close>

definition analyze_performance ::
  "library \<Rightarrow> table \<Rightarrow> real \<Rightarrow> int \<Rightarrow> py_error + (analysis \<times> table)" where
  "analyze_performance lib df risk_threshold min_records =
     (case missing_column df [''student_id'', ''subject'', ''grade''] of
        Some c \<Rightarrow> Inl (KeyError c)
      | None \<Rightarrow>
          let student_stats = filter (\<lambda>s. min_records \<le> int (grade_count s))
                                     (student_statistics (rows df));
              at_risk = filter (\<lambda>s. avg_grade s < risk_threshold) student_stats
          in bind_result (for_each (risk_student_info (lib_iso_week lib) df) at_risk)
               (\<lambda>risk.
                  let df5 = ensure_week (lib_iso_week lib) df
                  in bind_result (trend_analysis df5)
                       (\<lambda>tr. Inr (\<lparr>overall = overall_statistics df,
                                     by_subject = by_subject_statistics df,
                                     by_group = by_group_statistics df,
                                     risk_students = risk,
                                     trends_of = tr,
                                     correlations = best_effort correlations_failed
                                                      (correlation_analysis lib df5),
                                     clusters = best_effort clustering_failed
                                                  (cluster_analysis lib student_stats),
                                     timestamp = lib_now lib\<rparr>, df5))))"

subsection \<open>Students at risk by several criteria (\<^verbatim>\<open>identify_at_risk_students\<close>)\<close>

text \<open>
  The texts of the risk factors. Each starts with a key of \<open>recommendations_map\<close>. The
  number formatting of the f-strings (\<^verbatim>\<open>:.2f\<close>, \<^verbatim>\<open>:.1f\<close>) is the parameter \<open>fmt\<close>, which
  takes the number of decimals and the value.
\<close>

definition low_average_text :: "(nat \<Rightarrow> real \<Rightarrow> ustr) \<Rightarrow> real \<Rightarrow> ustr" where
  "low_average_text fmt avg = key_low_average @ [32, 40] @ fmt 2 avg @ [41]"

definition high_variability_text :: "(nat \<Rightarrow> real \<Rightarrow> ustr) \<Rightarrow> real \<Rightarrow> ustr" where
  "high_variability_text fmt sd = key_high_variability @ [32, 40, 963, 61] @ fmt 2 sd @ [41]"

definition declining_text :: "(nat \<Rightarrow> real \<Rightarrow> ustr) \<Rightarrow> real \<Rightarrow> ustr" where
  "declining_text fmt sl =
     key_declining_trend @ [32, 40, 1090, 1088, 1077, 1085, 1076, 58, 32] @ fmt 2 sl
       @ [47, 1085, 1077, 1076, 1077, 1083, 1102, 41]"

definition sharp_drop_text :: "(nat \<Rightarrow> real \<Rightarrow> ustr) \<Rightarrow> real \<Rightarrow> real \<Rightarrow> ustr" where
  "sharp_drop_text fmt first_half second_half =
     key_sharp_drop @ [32, 40] @ fmt 1 first_half @ [32, 8594, 32] @ fmt 1 second_half @ [41]"

definition low_attendance_text :: "(nat \<Rightarrow> real \<Rightarrow> ustr) \<Rightarrow> real \<Rightarrow> ustr" where
  "low_attendance_text fmt rate = key_low_attendance @ [32, 40] @ fmt 1 (rate * 100) @ [37, 41]"

record risk_row =
  rr_student_id :: string
  rr_avg_grade :: "real option"
  rr_grade_std :: "real option"
  rr_subject_count :: nat
  total_grades :: nat
  risk_factors :: "ustr list"
  risk_score :: nat
  recommendations :: "ustr list"
  rr_group :: "string option"

text \<open>A comparison with NaN is false.\<close>

definition nan_less :: "real option \<Rightarrow> real \<Rightarrow> bool" where
  "nan_less v c = (case v of None \<Rightarrow> False | Some a \<Rightarrow> a < c)"

definition nan_greater :: "real option \<Rightarrow> real \<Rightarrow> bool" where
  "nan_greater v c = (case v of None \<Rightarrow> False | Some a \<Rightarrow> c < a)"

text \<open>
  Criterion 3: the trend over the weekly means, fitted against the positions
  \<open>0, 1, \<dots>\<close> of the weeks, and the drop from the first half of the weekly means to the
  second, the halves split at \<^verbatim>\<open>len(y) // 2\<close>.
\<close>

definition trend_factors ::
  "(nat \<Rightarrow> real \<Rightarrow> ustr) \<Rightarrow> table \<Rightarrow> int \<Rightarrow> real \<Rightarrow> grade_record list \<Rightarrow> py_error + ustr list" where
  "trend_factors fmt df_copy min_weeks decline_threshold student_data =
     (if has_column df_copy ''week'' \<and> min_weeks \<le> int (nunique (map week student_data)) then
        let weekly = weekly_grades student_data
        in if min_weeks \<le> int (length weekly) then
             let y = map snd weekly
             in bind_result (polyfit (arange (length y)) y)
                  (\<lambda>(sl, ic).
                     let first_half = series_mean (take (length y div 2) y);
                         second_half = series_mean (drop (length y div 2) y)
                     in Inr ((if sl < - 0.2 then [declining_text fmt sl] else [])
                             @ (case (first_half, second_half) of
                                  (Some a, Some b) \<Rightarrow>
                                    if decline_threshold < a - b then [sharp_drop_text fmt a b]
                                    else []
                                | _ \<Rightarrow> [])))
           else Inr []
      else Inr [])"

definition index_message :: ustr where
  "index_message = ascii ''single positional indexer is out-of-bounds''"

text \<open>One turn of the loop over the students: the row of the student, if any factor holds.\<close>

definition student_risk ::
  "(nat \<Rightarrow> real \<Rightarrow> ustr) \<Rightarrow> table \<Rightarrow> real \<Rightarrow> int \<Rightarrow> real \<Rightarrow> string \<Rightarrow> py_error + risk_row option" where
  "student_risk fmt df_copy threshold min_weeks decline_threshold sid =
     (let student_data = filter (\<lambda>r. student_id r = sid) (rows df_copy)
      in case missing_column df_copy [''grade'', ''subject''] of
           Some c \<Rightarrow> Inl (KeyError c)
         | None \<Rightarrow>
             let avg = series_mean (map grade student_data);
                 sd = series_std (map grade student_data);
                 factors1 = (case avg of
                               Some a \<Rightarrow> if a < threshold then [low_average_text fmt a] else []
                             | None \<Rightarrow> []);
                 factors2 = (case sd of
                               Some s \<Rightarrow> if 2.5 < s then [high_variability_text fmt s] else []
                             | None \<Rightarrow> [])
             in bind_result (trend_factors fmt df_copy min_weeks decline_threshold student_data)
                  (\<lambda>factors3.
                     let factors4 =
                           (if has_column df_copy ''attendance'' then
                              (case series_mean (map attendance student_data) of
                                 Some rate \<Rightarrow>
                                   if rate < 0.7 then [low_attendance_text fmt rate] else []
                               | None \<Rightarrow> [])
                            else []);
                         factors = factors1 @ factors2 @ factors3 @ factors4
                     in if factors = [] then Inr None
                        else if has_column df_copy ''group'' then
                          (case student_data of
                             [] \<Rightarrow> Inl (IndexError index_message)
                           | r # rest \<Rightarrow>
                               Inr (Some \<lparr>rr_student_id = sid, rr_avg_grade = avg,
                                         rr_grade_std = sd,
                                         rr_subject_count = nunique (map subject student_data),
                                         total_grades = length student_data,
                                         risk_factors = factors,
                                         risk_score = length factors,
                                         recommendations = generate_recommendations factors,
                                         rr_group = Some (grp r)\<rparr>))
                        else
                          Inr (Some \<lparr>rr_student_id = sid, rr_avg_grade = avg,
                                    rr_grade_std = sd,
                                    rr_subject_count = nunique (map subject student_data),
                                    total_grades = length student_data,
                                    risk_factors = factors,
                                    risk_score = length factors,
                                    recommendations = generate_recommendations factors,
                                    rr_group = None\<rparr>)))"

definition present :: "'a option list \<Rightarrow> 'a list" where
  "present xs = concat (map (\<lambda>x. case x of None \<Rightarrow> [] | Some v \<Rightarrow> [v]) xs)"

text \<open>
  The key of \<^verbatim>\<open>sort_values(['risk_score', 'avg_grade'], ascending=[False, True])\<close>: the
  score descending, then the mean grade ascending with NaN last. The sort is stable.
\<close>

definition risk_order :: "risk_row \<Rightarrow> int \<times> nat \<times> real" where
  "risk_order r =
     (- int (risk_score r),
      (case rr_avg_grade r of None \<Rightarrow> (1, 0) | Some a \<Rightarrow> (0, a)))"

definition identify_at_risk_students ::
  "(nat \<Rightarrow> real \<Rightarrow> ustr) \<Rightarrow> (date \<Rightarrow> int) \<Rightarrow> table \<Rightarrow> real \<Rightarrow> int \<Rightarrow> real \<Rightarrow> py_error + risk_row list" where
  "identify_at_risk_students fmt iso_week df threshold min_weeks decline_threshold =
     (let df_copy = ensure_week iso_week df
      in case missing_column df_copy [''student_id''] of
           Some c \<Rightarrow> Inl (KeyError c)
         | None \<Rightarrow>
             bind_result
               (for_each (student_risk fmt df_copy threshold min_weeks decline_threshold)
                  (unique (map student_id (rows df_copy))))
               (\<lambda>results. Inr (sort_key risk_order (present results))))"

subsection \<open>Prediction of final grades (\<^verbatim>\<open>predict_final_grades\<close>)\<close>

text \<open>
  The current week is the caller's Python integer, or the largest week of the table (a
  numpy integer, NaN for a table without rows), or 10. A Python integer divided by the
  Python integer 0 raises; divided by the numpy integer 0 it is infinite, and divided by
  NaN it is NaN, and \<^verbatim>\<open>min(1.0, x)\<close> is 1.0 for both.
\<close>

datatype week_number = PyInt int | NpInt int | NpNaN

definition resolve_current_week :: "table \<Rightarrow> int option \<Rightarrow> week_number" where
  "resolve_current_week df current_week =
     (case current_week of
        Some w \<Rightarrow> PyInt w
      | None \<Rightarrow>
          if has_column df ''week''
          then (case map week (rows df) of [] \<Rightarrow> NpNaN | w # ws \<Rightarrow> NpInt (fold max ws w))
          else PyInt 10)"

definition division_message :: ustr where
  "division_message = ascii ''division by zero''"

definition confidence :: "nat \<Rightarrow> week_number \<Rightarrow> py_error + real" where
  "confidence n current_week =
     (case current_week of
        PyInt w \<Rightarrow>
          if w = 0 then Inl (ZeroDivisionError division_message)
          else Inr (py_min 1.0 (real n / of_int w))
      | NpInt w \<Rightarrow> Inr (if w = 0 then 1.0 else py_min 1.0 (real n / of_int w))
      | NpNaN \<Rightarrow> Inr 1.0)"

record prediction =
  p_student_id :: string
  p_subject :: string
  p_current_week :: week_number
  weeks_available :: nat
  current_avg_grade :: real
  predicted_final_grade :: real
  prediction_confidence :: real
  p_trend :: string
  p_trend_slope :: real
  p_group :: "string option"

text \<open>
  One turn of the inner loop: the prediction for a student in a subject. The line is
  fitted against the week numbers themselves.
\<close>

definition predict_subject ::
  "table \<Rightarrow> week_number \<Rightarrow> string \<Rightarrow> string \<Rightarrow> grade_record list \<Rightarrow> py_error + prediction option" where
  "predict_subject df current_week sid subj subject_data =
     (if has_column df ''week'' then
        (case missing_column df [''grade''] of
           Some c \<Rightarrow> Inl (KeyError c)
         | None \<Rightarrow>
             let weekly = weekly_grades subject_data
             in if 2 \<le> length weekly then
                  let weeks = map (\<lambda>(w, g). of_int w) weekly;
                      grades = map snd weekly
                  in bind_result (polyfit weeks grades)
                       (\<lambda>(sl, ic).
                          let final_grade_pred = py_max 1 (py_min 10 (sl * 16 + ic))
                          in bind_result (confidence (length weekly) current_week)
                               (\<lambda>conf.
                                  let p = \<lparr>p_student_id = sid, p_subject = subj,
                                           p_current_week = current_week,
                                           weeks_available = length weekly,
                                           current_avg_grade = group_mean grades,
                                           predicted_final_grade = final_grade_pred,
                                           prediction_confidence = conf,
                                           p_trend = (if 0.05 < sl then ''improving''
                                                      else if sl < - 0.05 then ''declining''
                                                      else ''stable''),
                                           p_trend_slope = sl,
                                           p_group = None\<rparr>
                                  in if has_column df ''group'' then
                                       (case subject_data of
                                          [] \<Rightarrow> Inl (IndexError index_message)
                                        | r # rest \<Rightarrow> Inr (Some (p\<lparr>p_group := Some (grp r)\<rparr>)))
                                     else Inr (Some p)))
                else Inr None)
      else Inr None)"

definition predict_student ::
  "table \<Rightarrow> week_number \<Rightarrow> string \<Rightarrow> py_error + prediction option list" where
  "predict_student df current_week sid =
     (let student_data = filter (\<lambda>r. student_id r = sid) (rows df)
      in case missing_column df [''subject''] of
           Some c \<Rightarrow> Inl (KeyError c)
         | None \<Rightarrow>
             for_each (\<lambda>subj. predict_subject df current_week sid subj
                                 (filter (\<lambda>r. subject r = subj) student_data))
                      (unique (map subject student_data)))"

definition predict_final_grades :: "table \<Rightarrow> int option \<Rightarrow> py_error + prediction list" where
  "predict_final_grades df current_week =
     (let cw = resolve_current_week df current_week
      in case missing_column df [''student_id''] of
           Some c \<Rightarrow> Inl (KeyError c)
         | None \<Rightarrow>
             bind_result (for_each (predict_student df cw) (unique (map student_id (rows df))))
               (\<lambda>predictions.
                  Inr (sort_key (\<lambda>p. (p_student_id p, p_subject p))
                         (present (concat predictions)))))"

subsection \<open>The raw table and its cleaning (\<^verbatim>\<open>clean_data\<close>)\<close>



















subsection \<open>Sample inputs\<close>

text \<open>
  The inputs at which the theorems below are instantiated. The dates of the sample rows lie
  in the first ISO week of 2024, so \<open>first_week\<close> is the ISO week on them. Every call of
  \<open>failing_library\<close> that can raise does so.
\<close>

definition first_week :: "date \<Rightarrow> int" where
  "first_week d = 1"

definition failing_library :: library where
  "failing_library =
     \<lparr>lib_iso_week = first_week,
      lib_now = ''2024-01-08T09:00:00'',
      lib_pivot_table = (\<lambda>df. Inl (LibraryError (ascii ''No numeric types to aggregate''))),
      lib_corr = (\<lambda>p. Inl (LibraryError (ascii ''corr failed''))),
      lib_fit_transform = (\<lambda>fs. Inl (LibraryError (ascii ''Input contains NaN''))),
      lib_fit_predict = (\<lambda>n fs. Inl (LibraryError (ascii ''Input contains NaN'')))\<rparr>"

definition sample_record :: "string \<Rightarrow> string \<Rightarrow> real \<Rightarrow> int \<Rightarrow> grade_record" where
  "sample_record sid subj g w =
     \<lparr>student_id = sid, subject = subj, grade = g, grp = ''G1'', week = w,
      date = (2024, 1, 3), attendance = 1\<rparr>"


definition dated_table :: table where
  "dated_table =
     \<lparr>columns = [''student_id'', ''subject'', ''grade'', ''date''],
      rows = [sample_record ''STD001'' ''Math'' 5 0]\<rparr>"



definition ten_students :: table where
  "ten_students =
     \<lparr>columns = [''student_id'', ''subject'', ''grade''],
      rows = [sample_record ''STD001'' ''Math'' 5 0, sample_record ''STD002'' ''Math'' 6 0,
              sample_record ''STD003'' ''Math'' 7 0, sample_record ''STD004'' ''Math'' 8 0,
              sample_record ''STD005'' ''Math'' 9 0, sample_record ''STD006'' ''Math'' 4 0,
              sample_record ''STD007'' ''Math'' 3 0, sample_record ''STD008'' ''Math'' 2 0,
              sample_record ''STD009'' ''Math'' 10 0, sample_record ''STD010'' ''Math'' 5 0]\<rparr>"

definition steep_table :: table where
  "steep_table =
     \<lparr>columns = [''student_id'', ''subject'', ''grade'', ''week''],
      rows = [sample_record ''STD001'' ''Math'' 4 1, sample_record ''STD001'' ''Math'' 10 3]\<rparr>"

text \<open>
  \<open>plain_fmt\<close> stands for the number formatting in the sample runs; the theorems hold for
  every formatting.
\<close>

definition plain_fmt :: "nat \<Rightarrow> real \<Rightarrow> ustr" where
  "plain_fmt digits x = ascii ''#''"


definition declining_table :: table where
  "declining_table =
     \<lparr>columns = [''student_id'', ''subject'', ''grade'', ''week''],
      rows = [sample_record ''STD001'' ''Math'' 8 1, sample_record ''STD001'' ''Math'' 8 2,
              sample_record ''STD001'' ''Math'' 8 3, sample_record ''STD001'' ''Math'' 8 4,
              sample_record ''STD001'' ''Math'' 4 5, sample_record ''STD001'' ''Math'' 4 6]\<rparr>"





section \<open>Properties\<close>

subsection \<open>Recommendations\<close>

lemma extend_matching_append:
  "extend_matching m factor acc = acc @ matched_lists m factor"
proof (induction m arbitrary: acc)
  case Nil
  show ?case by (simp add: extend_matching_def matched_lists_def)
next
  case (Cons e m)
  obtain key rec_list where e: "e = (key, rec_list)" by (cases e)
  have step: "extend_matching (e # m) factor acc =
      extend_matching m factor (if py_in key factor then acc @ rec_list else acc)"
    by (simp add: extend_matching_def e)
  show ?case
    unfolding step Cons.IH by (simp add: matched_lists_def e)
qed

lemma fold_extend_matching:
  "fold (extend_matching m) fs acc = acc @ concat (map (matched_lists m) fs)"
  by (induction fs arbitrary: acc) (simp_all add: extend_matching_append)

lemma collect_recommendations_concat:
  "collect_recommendations m fs = concat (map (matched_lists m) fs)"
  by (simp add: collect_recommendations_def fold_extend_matching)

lemma remdups_drop_repeated:
  "x \<in> set bs \<Longrightarrow> remdups (as @ x # bs) = remdups (as @ bs)"
  by (induction as) auto

lemma fold_unique_step:
  "distinct u \<Longrightarrow> fold unique_step xs u = rev (remdups (rev (u @ xs)))"
proof (induction xs arbitrary: u)
  case Nil
  then show ?case by (simp add: distinct_remdups_id)
next
  case (Cons x xs)
  show ?case
  proof (cases "x \<in> set u")
    case True
    then have "fold unique_step (x # xs) u = fold unique_step xs u"
      by (simp add: unique_step_def)
    also have "\<dots> = rev (remdups (rev (u @ xs)))"
      using Cons.IH [OF Cons.prems] .
    also have "\<dots> = rev (remdups (rev (u @ x # xs)))"
      using True remdups_drop_repeated [of x "rev u" "rev xs"] by simp
    finally show ?thesis .
  next
    case False
    then have "fold unique_step (x # xs) u = fold unique_step xs (u @ [x])"
      by (simp add: unique_step_def)
    also have "\<dots> = rev (remdups (rev ((u @ [x]) @ xs)))"
      using Cons.IH [of "u @ [x]"] Cons.prems False by simp
    finally show ?thesis by simp
  qed
qed

lemma unique_recommendations_first:
  "unique_recommendations xs = keep_first_occurrences xs"
  using fold_unique_step [of "[]" xs]
  by (simp add: unique_recommendations_def keep_first_occurrences_def)

lemma distinct_keep_first_occurrences: "distinct (keep_first_occurrences xs)"
  by (simp add: keep_first_occurrences_def)

text \<open>
  C8: for every list of risk-factor strings the result of \<open>generate_recommendations\<close> has at
  most five entries, has no duplicate entries, and is the concatenation of the lists of
  the matched keys, de-duplicated keeping first occurrences (and cut to five entries).
\<close>

theorem generate_recommendations_bounded_unique:
  "length (generate_recommendations fs) \<le> 5
   \<and> distinct (generate_recommendations fs)
   \<and> generate_recommendations fs = spec_recommendations fs"
proof -
  have eq: "generate_recommendations fs = spec_recommendations fs"
    by (simp add: generate_recommendations_def spec_recommendations_def
        unique_recommendations_first collect_recommendations_concat)
  have "distinct (spec_recommendations fs)"
    unfolding spec_recommendations_def
    by (rule distinct_take) (rule distinct_keep_first_occurrences)
  moreover have "length (spec_recommendations fs) \<le> 5"
    by (simp add: spec_recommendations_def)
  ultimately show ?thesis using eq by simp
qed

text \<open>
  C8 at two factors, a low average and a sharp drop: the three recommendations of the
  first and the first two of the second.
\<close>

theorem generate_recommendations_bounded_unique_witness:
  "generate_recommendations [key_low_average @ [32, 40, 52, 41], key_sharp_drop]
     = [rec_low_average_1, rec_low_average_2, rec_low_average_3,
        rec_sharp_drop_1, rec_sharp_drop_2]
   \<and> length (generate_recommendations [key_low_average @ [32, 40, 52, 41], key_sharp_drop]) \<le> 5
   \<and> distinct (generate_recommendations [key_low_average @ [32, 40, 52, 41], key_sharp_drop])"
proof -
  have "generate_recommendations [key_low_average @ [32, 40, 52, 41], key_sharp_drop]
     = [rec_low_average_1, rec_low_average_2, rec_low_average_3,
        rec_sharp_drop_1, rec_sharp_drop_2]"
    by (simp add: generate_recommendations_def collect_recommendations_def extend_matching_def
        recommendations_map_def unique_recommendations_def unique_step_def
        key_low_average_def key_sharp_drop_def key_high_variability_def
        key_declining_trend_def key_low_attendance_def
        rec_low_average_1_def rec_low_average_2_def rec_low_average_3_def
        rec_sharp_drop_1_def rec_sharp_drop_2_def rec_sharp_drop_3_def)
  with generate_recommendations_bounded_unique
         [of "[key_low_average @ [32, 40, 52, 41], key_sharp_drop]"]
  show ?thesis by blast
qed

subsection \<open>Loops and the least-squares line\<close>

lemma bind_result_Inr:
  "bind_result r f = Inr v \<longleftrightarrow> (\<exists>u. r = Inr u \<and> f u = Inr v)"
  by (cases r) (simp_all add: bind_result_def)

lemma for_each_Cons_Inr:
  "for_each f (x # xs) = Inr zs \<longleftrightarrow>
     (\<exists>y ys. f x = Inr y \<and> for_each f xs = Inr ys \<and> zs = y # ys)"
  by (auto split: sum.splits)

lemma for_each_Inr:
  "for_each f xs = Inr ys \<longleftrightarrow> list_all2 (\<lambda>x y. f x = Inr y) xs ys"
proof (induction xs arbitrary: ys)
  case Nil
  show ?case by auto
next
  case (Cons x xs)
  show ?case
    unfolding for_each_Cons_Inr Cons.IH by (cases ys) auto
qed

lemma for_each_total:
  "(\<And>x. x \<in> set xs \<Longrightarrow> \<exists>y. f x = Inr y) \<Longrightarrow> \<exists>ys. for_each f xs = Inr ys"
proof (induction xs)
  case Nil
  show ?case by simp
next
  case (Cons x xs)
  obtain y where y: "f x = Inr y" using Cons.prems [of x] by auto
  obtain ys where ys: "for_each f xs = Inr ys" using Cons.IH Cons.prems by auto
  show ?case by (simp add: y ys)
qed

lemma for_each_member:
  "for_each f xs = Inr ys \<Longrightarrow> y \<in> set ys \<Longrightarrow> \<exists>x \<in> set xs. f x = Inr y"
  unfolding for_each_Inr list_all2_conv_all_nth in_set_conv_nth
  by (metis nth_mem)

lemma sum_squares_shift:
  "sum_list (map (\<lambda>a. (a - c)\<^sup>2) xs)
     = sum_list (map (\<lambda>a. a * a) xs) - 2 * c * sum_list xs + real (length xs) * c\<^sup>2"
  by (induction xs) (simp_all add: power2_eq_square algebra_simps)

lemma normal_determinant:
  assumes "xs \<noteq> []"
  shows "real (length xs) * sum_list (map (\<lambda>a. a * a) xs) - sum_list xs * sum_list xs
         = real (length xs) * sum_list (map (\<lambda>a. (a - sum_list xs / real (length xs))\<^sup>2) xs)"
proof -
  have n: "real (length xs) \<noteq> 0" using assms by simp
  show ?thesis
    unfolding sum_squares_shift using n
    by (simp add: power2_eq_square field_simps)
qed

lemma sum_list_squares_zero:
  "sum_list (map (\<lambda>a. (a - c)\<^sup>2) xs) = 0 \<Longrightarrow> a \<in> set xs \<Longrightarrow> a = (c::real)"
proof (induction xs)
  case Nil
  then show ?case by simp
next
  case (Cons x xs)
  have nn: "0 \<le> sum_list (map (\<lambda>a. (a - c)\<^sup>2) xs)"
    by (rule sum_list_nonneg) auto
  have "(x - c)\<^sup>2 + sum_list (map (\<lambda>a. (a - c)\<^sup>2) xs) = 0" using Cons.prems(1) by simp
  then have "(x - c)\<^sup>2 = 0" and "sum_list (map (\<lambda>a. (a - c)\<^sup>2) xs) = 0"
    using nn zero_le_power2 [of "x - c"] by linarith+
  then show ?case using Cons by auto
qed

lemma polyfit_defined:
  assumes "a \<in> set x" "b \<in> set x" "a \<noteq> b"
  shows "\<exists>sl ic. polyfit x y = Inr (sl, ic)"
proof -
  have ne: "x \<noteq> []" using assms(1) by auto
  let ?d = "real (length x) * sum_list (map (\<lambda>a. a * a) x) - sum_list x * sum_list x"
  have "?d \<noteq> 0"
  proof
    assume "?d = 0"
    then have "sum_list (map (\<lambda>a. (a - sum_list x / real (length x))\<^sup>2) x) = 0"
      using normal_determinant [OF ne] ne by simp
    then have "a = sum_list x / real (length x)" "b = sum_list x / real (length x)"
      using assms(1,2) sum_list_squares_zero by blast+
    then show False using assms(3) by simp
  qed
  then show ?thesis by (simp add: polyfit_def Let_def)
qed

lemma polyfit_arange_defined:
  assumes "1 < n"
  shows "\<exists>sl ic. polyfit (arange n) y = Inr (sl, ic)"
proof -
  have "0 \<in> set (arange n)" "1 \<in> set (arange n)"
    using assms by (auto simp: arange_def image_iff intro: bexI [of _ 0] bexI [of _ 1])
  then show ?thesis using polyfit_defined [of 0 "arange n" 1 y] by simp
qed

subsection \<open>Performance analysis\<close>

lemma student_trend_total: "\<exists>t. student_trend iso_week df sid = Inr t"
proof -
  have "\<And>n y. 1 < n \<Longrightarrow> \<exists>t. bind_result (polyfit (arange n) y)
          (\<lambda>(slope, intercept).
             Inr (Some (if 0.1 < slope then ''positive''
                        else if slope < - 0.1 then ''negative'' else ''stable'', slope))) = Inr t"
  proof -
    fix n :: nat and y :: "real list"
    assume "1 < n"
    then obtain sl ic where "polyfit (arange n) y = Inr (sl, ic)"
      using polyfit_arange_defined by blast
    then show "\<exists>t. bind_result (polyfit (arange n) y)
          (\<lambda>(slope, intercept).
             Inr (Some (if 0.1 < slope then ''positive''
                        else if slope < - 0.1 then ''negative'' else ''stable'', slope))) = Inr t"
      by (simp add: bind_result_def)
  qed
  then show ?thesis
    by (simp add: student_trend_def Let_def)
qed

lemma risk_student_info_total: "\<exists>i. risk_student_info iso_week df student = Inr i"
proof -
  obtain t where "student_trend iso_week df (ss_student_id student) = Inr t"
    using student_trend_total by blast
  then show ?thesis by (simp add: risk_student_info_def bind_result_def)
qed

lemma trend_analysis_total: "\<exists>tr. trend_analysis df = Inr tr"
proof (cases "has_column df ''week'' \<and> 1 < length (weekly_grades (rows df))")
  case True
  then obtain sl ic where
    "polyfit (arange (length (weekly_grades (rows df)))) (map snd (weekly_grades (rows df))) = Inr (sl, ic)"
    using polyfit_arange_defined by blast
  then show ?thesis using True by (simp add: trend_analysis_def Let_def bind_result_def)
next
  case False
  then show ?thesis by (auto simp add: trend_analysis_def Let_def)
qed

lemma analyze_performance_returns:
  assumes "missing_column df [''student_id'', ''subject'', ''grade''] = None"
  shows "\<exists>risk tr.
     analyze_performance lib df risk_threshold min_records =
       Inr (\<lparr>overall = overall_statistics df,
             by_subject = by_subject_statistics df,
             by_group = by_group_statistics df,
             risk_students = risk,
             trends_of = tr,
             correlations = best_effort correlations_failed
                (correlation_analysis lib (ensure_week (lib_iso_week lib) df)),
             clusters = best_effort clustering_failed
                (cluster_analysis lib (filter (\<lambda>s. min_records \<le> int (grade_count s))
                                     (student_statistics (rows df)))),
             timestamp = lib_now lib\<rparr>, ensure_week (lib_iso_week lib) df)
     \<and> for_each (risk_student_info (lib_iso_week lib) df)
          (filter (\<lambda>s. avg_grade s < risk_threshold)
             (filter (\<lambda>s. min_records \<le> int (grade_count s)) (student_statistics (rows df))))
         = Inr risk
     \<and> trend_analysis (ensure_week (lib_iso_week lib) df) = Inr tr"
proof -
  obtain risk where risk: "for_each (risk_student_info (lib_iso_week lib) df)
          (filter (\<lambda>s. avg_grade s < risk_threshold)
             (filter (\<lambda>s. min_records \<le> int (grade_count s)) (student_statistics (rows df))))
         = Inr risk"
    using for_each_total [of _ "risk_student_info (lib_iso_week lib) df"] risk_student_info_total
    by meson
  obtain tr where tr: "trend_analysis (ensure_week (lib_iso_week lib) df) = Inr tr"
    using trend_analysis_total by blast
  show ?thesis
    using assms risk tr
    by (simp add: analyze_performance_def Let_def bind_result_def)
qed


lemma set_unique [simp]: "set (unique xs) = set xs"
  by (simp add: unique_def keep_first_occurrences_def)









lemma assign_week_changes:
  "\<not> has_column df ''week'' \<Longrightarrow> assign_week iso_week df \<noteq> df"
proof
  assume a: "\<not> has_column df ''week''" and "assign_week iso_week df = df"
  then have "columns (assign_week iso_week df) = columns df" by simp
  then show False using a by (simp add: assign_week_def)
qed

text \<open>
  C3 fails on the code: when the caller's table has a date column and no week column,
  \<open>analyze_performance\<close> returns and the caller's table has a new last column \<open>week\<close>.
\<close>

theorem analyze_performance_assigns_week:
  assumes "missing_column df [''student_id'', ''subject'', ''grade''] = None"
    and "has_column df ''date''" and "\<not> has_column df ''week''"
  shows "\<exists>res df'. analyze_performance lib df risk_threshold min_records = Inr (res, df')
           \<and> columns df' = columns df @ [''week''] \<and> df' \<noteq> df"
proof -
  have "ensure_week (lib_iso_week lib) df = assign_week (lib_iso_week lib) df"
    using assms by (simp add: ensure_week_def)
  moreover have "columns (assign_week (lib_iso_week lib) df) = columns df @ [''week'']"
    using assms(3) by (simp add: assign_week_def)
  ultimately show ?thesis
    using analyze_performance_returns [OF assms(1), of lib risk_threshold min_records]
      assign_week_changes [OF assms(3), of "lib_iso_week lib"]
    by auto
qed

text \<open>
  C3 at a table with one dated row.
\<close>

theorem analyze_performance_assigns_week_witness:
  "missing_column dated_table [''student_id'', ''subject'', ''grade''] = None
   \<and> has_column dated_table ''date'' \<and> \<not> has_column dated_table ''week''
   \<and> (\<exists>res df'. analyze_performance failing_library dated_table 5 3 = Inr (res, df')
         \<and> columns df' = [''student_id'', ''subject'', ''grade'', ''date'', ''week'']
         \<and> df' \<noteq> dated_table)"
proof -
  have m: "missing_column dated_table [''student_id'', ''subject'', ''grade''] = None"
    and d: "has_column dated_table ''date''" and w: "\<not> has_column dated_table ''week''"
    by (simp_all add: missing_column_def has_column_def dated_table_def)
  have "columns dated_table = [''student_id'', ''subject'', ''grade'', ''date'']"
    by (simp add: dated_table_def)
  then show ?thesis
    using analyze_performance_assigns_week [OF m d w, of failing_library 5 3] m d w
    by auto
qed

text \<open>
  In every other case the caller's table is the same after the call.
\<close>

lemma analyze_performance_keeps_table:
  assumes "analyze_performance lib df risk_threshold min_records = Inr (res, df')"
    and "has_column df ''week'' \<or> \<not> has_column df ''date''"
  shows "df' = df"
proof -
  have "missing_column df [''student_id'', ''subject'', ''grade''] = None"
    using assms(1) by (cases "missing_column df [''student_id'', ''subject'', ''grade'']")
      (simp_all add: analyze_performance_def)
  from analyze_performance_returns [OF this, of lib risk_threshold min_records]
  have "df' = ensure_week (lib_iso_week lib) df" using assms(1) by auto
  then show ?thesis using assms(2) by (auto simp: ensure_week_def)
qed

text \<open>
  C7: for a table with the required columns \<open>analyze_performance\<close> returns, whatever
  the library calls of the correlation and clustering steps do. When the correlation
  step raises \<open>e\<close>, the field \<open>correlations\<close> is the message built from \<open>e\<close>, and
  likewise for \<open>clusters\<close>; the other fields are what the steps before computed.
\<close>

theorem best_effort_stages_never_raise:
  assumes "missing_column df [''student_id'', ''subject'', ''grade''] = None"
  shows "\<exists>res df'. analyze_performance lib df risk_threshold min_records = Inr (res, df')
     \<and> (\<forall>e. correlation_analysis lib df' = Inl e
            \<longrightarrow> correlations res = Some (Diagnostic (correlations_failed @ error_text e)))
     \<and> (\<forall>e. cluster_analysis lib (filter (\<lambda>s. min_records \<le> int (grade_count s))
                                   (student_statistics (rows df))) = Inl e
            \<longrightarrow> clusters res = Some (Diagnostic (clustering_failed @ error_text e)))
     \<and> overall res = overall_statistics df
     \<and> by_subject res = by_subject_statistics df
     \<and> by_group res = by_group_statistics df
     \<and> for_each (risk_student_info (lib_iso_week lib) df)
          (filter (\<lambda>s. avg_grade s < risk_threshold)
             (filter (\<lambda>s. min_records \<le> int (grade_count s)) (student_statistics (rows df))))
         = Inr (risk_students res)
     \<and> trend_analysis df' = Inr (trends_of res)"
  using analyze_performance_returns [OF assms, of lib risk_threshold min_records]
  by (auto simp: best_effort_def)

text \<open>
  C7 at a table of ten students and a library whose calls all raise.
\<close>

theorem best_effort_stages_never_raise_witness:
  "missing_column ten_students [''student_id'', ''subject'', ''grade''] = None
   \<and> (\<exists>res df'. analyze_performance failing_library ten_students 5 1 = Inr (res, df')
         \<and> correlations res
             = Some (Diagnostic (correlations_failed @ ascii ''No numeric types to aggregate''))
         \<and> clusters res = Some (Diagnostic (clustering_failed @ ascii ''Input contains NaN''))
         \<and> total_records (overall res) = 10)"
proof -
  have m: "missing_column ten_students [''student_id'', ''subject'', ''grade''] = None"
    by (simp add: missing_column_def has_column_def ten_students_def)
  have c: "correlation_analysis failing_library d
             = Inl (LibraryError (ascii ''No numeric types to aggregate''))" for d
    by (simp add: correlation_analysis_def failing_library_def bind_result_def)
  have len: "length (filter (\<lambda>s. 1 \<le> int (grade_count s)) (student_statistics (rows ten_students))) = 10"
    by (simp add: student_statistics_def group_keys_def ten_students_def sample_record_def Let_def)
  have k: "cluster_analysis failing_library
             (filter (\<lambda>s. 1 \<le> int (grade_count s)) (student_statistics (rows ten_students)))
             = Inl (LibraryError (ascii ''Input contains NaN''))"
    unfolding cluster_analysis_def len
    by (simp add: failing_library_def bind_result_def)
  have t: "total_records (overall_statistics ten_students) = 10"
    by (simp add: overall_statistics_def ten_students_def Let_def)
  from best_effort_stages_never_raise [OF m, of failing_library 5 1]
  obtain res df' where
    r: "analyze_performance failing_library ten_students 5 1 = Inr (res, df')"
    and rc: "\<forall>e. correlation_analysis failing_library df' = Inl e
            \<longrightarrow> correlations res = Some (Diagnostic (correlations_failed @ error_text e))"
    and rk: "\<forall>e. cluster_analysis failing_library (filter (\<lambda>s. 1 \<le> int (grade_count s))
                                   (student_statistics (rows ten_students))) = Inl e
            \<longrightarrow> clusters res = Some (Diagnostic (clustering_failed @ error_text e))"
    and ro: "overall res = overall_statistics ten_students"
    by blast
  have "correlations res
          = Some (Diagnostic (correlations_failed @ ascii ''No numeric types to aggregate''))"
    using rc c [of df'] by simp
  moreover have "clusters res = Some (Diagnostic (clustering_failed @ ascii ''Input contains NaN''))"
    using rk k by simp
  ultimately show ?thesis using m r ro t by simp
qed

subsection \<open>Prediction of final grades\<close>

lemma set_present: "set (present xs) = {x. Some x \<in> set xs}"
  by (induction xs) (auto simp: present_def split: option.splits)

lemma predict_subject_Some:
  assumes "predict_subject df cw sid subj sd = Inr (Some p)"
  shows "has_column df ''week'' \<and> 2 \<le> length (weekly_grades sd)
     \<and> (\<exists>ic. polyfit (map (\<lambda>(w, g). of_int w) (weekly_grades sd)) (map snd (weekly_grades sd))
               = Inr (p_trend_slope p, ic)
           \<and> predicted_final_grade p = py_max 1 (py_min 10 (p_trend_slope p * 16 + ic)))
     \<and> p_student_id p = sid \<and> p_subject p = subj"
proof -
  have w: "has_column df ''week''" and g: "missing_column df [''grade''] = None"
    and l: "2 \<le> length (weekly_grades sd)"
    using assms by (auto simp: predict_subject_def Let_def split: if_splits option.splits)
  obtain sl ic where pf: "polyfit (map (\<lambda>(w, g). of_int w) (weekly_grades sd))
       (map snd (weekly_grades sd)) = Inr (sl, ic)"
    using assms w g l
    by (cases "polyfit (map (\<lambda>(w, g). of_int w) (weekly_grades sd)) (map snd (weekly_grades sd))")
       (auto simp: predict_subject_def Let_def bind_result_def)
  obtain conf where cf: "confidence (length (weekly_grades sd)) cw = Inr conf"
    using assms w g l pf
    by (cases "confidence (length (weekly_grades sd)) cw")
       (auto simp: predict_subject_def Let_def bind_result_def)
  have "p_trend_slope p = sl \<and> predicted_final_grade p = py_max 1 (py_min 10 (sl * 16 + ic))
        \<and> p_student_id p = sid \<and> p_subject p = subj"
    using assms w g l pf cf
    by (auto simp: predict_subject_def Let_def bind_result_def split: if_splits list.splits)
  then show ?thesis using w l pf by auto
qed

lemma predict_final_grades_row:
  assumes "predict_final_grades df current_week = Inr ps" and "p \<in> set ps"
  shows "\<exists>sid subj. predict_subject df (resolve_current_week df current_week) sid subj
            (filter (\<lambda>r. subject r = subj) (filter (\<lambda>r. student_id r = sid) (rows df)))
           = Inr (Some p)"
proof -
  let ?cw = "resolve_current_week df current_week"
  obtain predictions where
    fe: "for_each (predict_student df ?cw) (unique (map student_id (rows df))) = Inr predictions"
    and ps: "ps = sort_key (\<lambda>p. (p_student_id p, p_subject p)) (present (concat predictions))"
    using assms(1)
    by (auto simp: predict_final_grades_def Let_def bind_result_Inr split: option.splits)
  have "Some p \<in> set (concat predictions)"
    using assms(2) ps by (simp add: set_present)
  then obtain row where row: "row \<in> set predictions" "Some p \<in> set row" by auto
  obtain sid where sid: "predict_student df ?cw sid = Inr row"
    using for_each_member [OF fe row(1)] by blast
  then have "for_each (\<lambda>subj. predict_subject df ?cw sid subj
               (filter (\<lambda>r. subject r = subj) (filter (\<lambda>r. student_id r = sid) (rows df))))
             (unique (map subject (filter (\<lambda>r. student_id r = sid) (rows df)))) = Inr row"
    by (auto simp: predict_student_def Let_def split: option.splits)
  from for_each_member [OF this row(2)] show ?thesis by blast
qed

lemma py_clamp_range: "1 \<le> py_max 1 (py_min 10 x) \<and> py_max 1 (py_min 10 x) \<le> 10"
  by (simp add: py_max_def py_min_def)

text \<open>
  C6: every row that \<open>predict_final_grades\<close> emits has its predicted final grade between
  1 and 10, whatever the slope of the fitted line.
\<close>

theorem predicted_final_grade_clamped:
  assumes "predict_final_grades df current_week = Inr ps" and "p \<in> set ps"
  shows "1 \<le> predicted_final_grade p \<and> predicted_final_grade p \<le> 10"
proof -
  obtain sid subj where "predict_subject df (resolve_current_week df current_week) sid subj
            (filter (\<lambda>r. subject r = subj) (filter (\<lambda>r. student_id r = sid) (rows df)))
           = Inr (Some p)"
    using predict_final_grades_row [OF assms] by blast
  from predict_subject_Some [OF this] obtain ic where
    "predicted_final_grade p = py_max 1 (py_min 10 (p_trend_slope p * 16 + ic))" by blast
  then show ?thesis using py_clamp_range by simp
qed

lemma steep_eval:
  "predict_final_grades steep_table None =
     Inr [\<lparr>p_student_id = ''STD001'', p_subject = ''Math'', p_current_week = NpInt 3,
           weeks_available = 2, current_avg_grade = 7, predicted_final_grade = 10,
           prediction_confidence = 2 / 3, p_trend = ''improving'', p_trend_slope = 3,
           p_group = None\<rparr>]"
  by (simp add: predict_final_grades_def steep_table_def sample_record_def Let_def
      resolve_current_week_def has_column_def missing_column_def unique_def
      keep_first_occurrences_def predict_student_def predict_subject_def weekly_grades_def
      group_keys_def group_mean_def polyfit_def bind_result_def confidence_def py_min_def
      py_max_def present_def)

text \<open>
  C6 at a student with grade 4 in week 1 and grade 10 in week 3: the slope is 3, the line
  reaches 49 in week 16, and the prediction is 10.
\<close>

theorem predicted_final_grade_clamped_witness:
  "\<exists>p. predict_final_grades steep_table None = Inr [p]
     \<and> p_trend_slope p = 3 \<and> predicted_final_grade p = 10
     \<and> 1 \<le> predicted_final_grade p \<and> predicted_final_grade p \<le> 10"
proof -
  define p where "p = \<lparr>p_student_id = ''STD001'', p_subject = ''Math'', p_current_week = NpInt 3,
           weeks_available = 2, current_avg_grade = 7, predicted_final_grade = 10,
           prediction_confidence = 2 / 3, p_trend = ''improving'', p_trend_slope = 3,
           p_group = None\<rparr>"
  have ev: "predict_final_grades steep_table None = Inr [p]"
    unfolding p_def by (rule steep_eval)
  have mem: "p \<in> set [p]" by simp
  have "p_trend_slope p = 3" and "predicted_final_grade p = 10" by (simp_all add: p_def)
  with predicted_final_grade_clamped [OF ev mem] ev show ?thesis by blast
qed









lemma missing_column_None:
  "missing_column df cs = None \<longleftrightarrow> (\<forall>c \<in> set cs. has_column df c)"
proof -
  have "missing_column df cs = None \<longleftrightarrow> filter (\<lambda>c. \<not> has_column df c) cs = []"
    by (simp add: missing_column_def split: list.splits)
  then show ?thesis by (simp add: filter_empty_conv)
qed

lemma for_each_image:
  "for_each f xs = Inr ys \<Longrightarrow> x \<in> set xs \<Longrightarrow> \<exists>y \<in> set ys. f x = Inr y"
proof (induction xs arbitrary: ys)
  case Nil
  then show ?case by simp
next
  case (Cons a xs)
  from Cons.prems(1) obtain b bs where
    b: "f a = Inr b" and bs: "for_each f xs = Inr bs" and ys: "ys = b # bs"
    unfolding for_each_Cons_Inr by blast
  show ?case
  proof (cases "x = a")
    case True
    then show ?thesis using b ys by simp
  next
    case False
    then have "x \<in> set xs" using Cons.prems(2) by simp
    from Cons.IH [OF bs this] show ?thesis using ys by auto
  qed
qed

lemma length_weekly_grades: "length (weekly_grades rs) = nunique (map week rs)"
  by (simp add: weekly_grades_def group_keys_def nunique_def)

lemma weekly_weeks: "map fst (weekly_grades rs) = group_keys week rs"
  by (simp add: weekly_grades_def comp_def)

lemma distinct_group_keys: "distinct (group_keys key rs)"
  by (simp add: group_keys_def)

lemma polyfit_weeks_defined:
  assumes "2 \<le> length (weekly_grades sd)"
  shows "\<exists>sl ic. polyfit (map (\<lambda>(w, g). of_int w) (weekly_grades sd)) (map snd (weekly_grades sd))
                  = Inr (sl, ic)"
proof -
  let ?ws = "group_keys week sd"
  have x: "map (\<lambda>(w, g). real_of_int w) (weekly_grades sd) = map real_of_int ?ws"
    by (simp add: weekly_weeks [symmetric] case_prod_unfold comp_def)
  have len: "2 \<le> length ?ws" using assms by (simp add: weekly_weeks [symmetric])
  then obtain a b rest where ws: "?ws = a # b # rest"
    by (cases ?ws; cases "tl ?ws") auto
  have "a \<noteq> b" using distinct_group_keys [of week sd] unfolding ws by simp
  then have "real_of_int a \<noteq> real_of_int b" by simp
  moreover have "real_of_int a \<in> set (map real_of_int ?ws)" "real_of_int b \<in> set (map real_of_int ?ws)"
    unfolding ws by simp_all
  ultimately show ?thesis unfolding x by (rule polyfit_defined [rotated 2])
qed



lemma confidence_total:
  "current_week \<noteq> Some 0 \<Longrightarrow>
   \<exists>c. confidence n (resolve_current_week df current_week) = Inr c"
  by (auto simp: confidence_def resolve_current_week_def split: option.splits list.splits)

lemma predict_subject_total:
  assumes "missing_column df [''grade''] = None" and "current_week \<noteq> Some 0"
    and "sd \<noteq> []"
  shows "\<exists>y. predict_subject df (resolve_current_week df current_week) sid subj sd = Inr y"
proof (cases "has_column df ''week'' \<and> 2 \<le> length (weekly_grades sd)")
  case True
  obtain sl ic where pf: "polyfit (map (\<lambda>(w, g). of_int w) (weekly_grades sd))
       (map snd (weekly_grades sd)) = Inr (sl, ic)"
    using polyfit_weeks_defined True by blast
  obtain c where c: "confidence (length (weekly_grades sd))
                       (resolve_current_week df current_week) = Inr c"
    using confidence_total [OF assms(2)] by blast
  obtain q rest where sd: "sd = q # rest" using assms(3) by (cases sd) auto
  show ?thesis
    using True assms(1) pf c
    by (simp add: predict_subject_def Let_def bind_result_def sd)
next
  case False
  then show ?thesis using assms(1) by (auto simp: predict_subject_def Let_def)
qed

lemma predict_final_grades_returns:
  assumes "missing_column df [''student_id'', ''subject'', ''grade''] = None"
    and "current_week \<noteq> Some 0"
  shows "\<exists>ps. predict_final_grades df current_week = Inr ps"
proof -
  let ?cw = "resolve_current_week df current_week"
  have m1: "missing_column df [''student_id''] = None"
    and m2: "missing_column df [''subject''] = None"
    and m3: "missing_column df [''grade''] = None"
    using assms(1) by (simp_all add: missing_column_None)
  have st: "\<exists>row. predict_student df ?cw sid = Inr row" for sid
  proof -
    let ?sd = "filter (\<lambda>r. student_id r = sid) (rows df)"
    have "\<exists>y. predict_subject df ?cw sid subj (filter (\<lambda>r. subject r = subj) ?sd) = Inr y"
      if "subj \<in> set (unique (map subject ?sd))" for subj
    proof -
      have "filter (\<lambda>r. subject r = subj) ?sd \<noteq> []"
        using that by (auto simp: filter_empty_conv)
      from predict_subject_total [OF m3 assms(2) this] show ?thesis .
    qed
    then have "\<exists>row. for_each (\<lambda>subj. predict_subject df ?cw sid subj
                                 (filter (\<lambda>r. subject r = subj) ?sd))
                 (unique (map subject ?sd)) = Inr row"
      by (rule for_each_total)
    then show ?thesis by (simp add: predict_student_def Let_def m2)
  qed
  obtain predictions where
    "for_each (predict_student df ?cw) (unique (map student_id (rows df))) = Inr predictions"
    using for_each_total [of _ "predict_student df ?cw"] st by meson
  then show ?thesis
    by (simp add: predict_final_grades_def Let_def m1 bind_result_def)
qed





subsection \<open>Students at risk by several criteria\<close>




lemma trend_factors_total:
  assumes "2 \<le> min_weeks"
  shows "\<exists>fs. trend_factors fmt dfc min_weeks decline_threshold sd = Inr fs"
proof (cases "has_column dfc ''week'' \<and> min_weeks \<le> int (nunique (map week sd))
              \<and> min_weeks \<le> int (length (weekly_grades sd))")
  case True
  then have "1 < length (map snd (weekly_grades sd))" using assms by simp
  from polyfit_arange_defined [OF this, of "map snd (weekly_grades sd)"]
  obtain sl ic where "polyfit (arange (length (map snd (weekly_grades sd))))
        (map snd (weekly_grades sd)) = Inr (sl, ic)" by blast
  then show ?thesis using True
    by (simp add: trend_factors_def Let_def bind_result_def)
next
  case False
  then show ?thesis by (auto simp: trend_factors_def Let_def)
qed

text \<open>
  The row of a student, once the factors of criterion 3 are known.
\<close>

lemma student_risk_unfold:
  assumes "missing_column dfc [''grade'', ''subject''] = None"
    and "trend_factors fmt dfc min_weeks decline_threshold
           (filter (\<lambda>r. student_id r = sid) (rows dfc)) = Inr f3"
    and "filter (\<lambda>r. student_id r = sid) (rows dfc) = r0 # rest"
  shows "\<exists>f1 f2 f4.
     student_risk fmt dfc threshold min_weeks decline_threshold sid =
       (if f1 @ f2 @ f3 @ f4 = [] then Inr None
        else Inr (Some \<lparr>rr_student_id = sid,
                rr_avg_grade = series_mean (map grade (r0 # rest)),
                rr_grade_std = series_std (map grade (r0 # rest)),
                rr_subject_count = nunique (map subject (r0 # rest)),
                total_grades = length (r0 # rest),
                risk_factors = f1 @ f2 @ f3 @ f4,
                risk_score = length (f1 @ f2 @ f3 @ f4),
                recommendations = generate_recommendations (f1 @ f2 @ f3 @ f4),
                rr_group = (if has_column dfc ''group'' then Some (grp r0) else None)\<rparr>))"
proof -
  let ?sd = "r0 # rest"
  define f1 where "f1 = (case series_mean (map grade ?sd) of
                               Some a \<Rightarrow> if a < threshold then [low_average_text fmt a] else []
                             | None \<Rightarrow> [])"
  define f2 where "f2 = (case series_std (map grade ?sd) of
                               Some s \<Rightarrow> if 2.5 < s then [high_variability_text fmt s] else []
                             | None \<Rightarrow> [])"
  define f4 where "f4 = (if has_column dfc ''attendance'' then
                              (case series_mean (map attendance ?sd) of
                                 Some rate \<Rightarrow>
                                   if rate < 0.7 then [low_attendance_text fmt rate] else []
                               | None \<Rightarrow> [])
                            else [])"
  have tf: "trend_factors fmt dfc min_weeks decline_threshold (r0 # rest) = Inr f3"
    using assms(2) unfolding assms(3) .
  have "student_risk fmt dfc threshold min_weeks decline_threshold sid =
       (if f1 @ f2 @ f3 @ f4 = [] then Inr None
        else Inr (Some \<lparr>rr_student_id = sid,
                rr_avg_grade = series_mean (map grade ?sd),
                rr_grade_std = series_std (map grade ?sd),
                rr_subject_count = nunique (map subject ?sd),
                total_grades = length ?sd,
                risk_factors = f1 @ f2 @ f3 @ f4,
                risk_score = length (f1 @ f2 @ f3 @ f4),
                recommendations = generate_recommendations (f1 @ f2 @ f3 @ f4),
                rr_group = (if has_column dfc ''group'' then Some (grp r0) else None)\<rparr>))"
  proof (cases "has_column dfc ''group''")
    case True
    show ?thesis
      unfolding student_risk_def Let_def assms(3) assms(1) tf bind_result_def
        f1_def f2_def f4_def
      by (simp only: option.case sum.case list.case prod.case True if_True)
  next
    case False
    show ?thesis
      unfolding student_risk_def Let_def assms(3) assms(1) tf bind_result_def
        f1_def f2_def f4_def
      by (simp only: option.case sum.case list.case prod.case False if_False)
  qed
  then show ?thesis by blast
qed

lemma student_risk_total:
  assumes "missing_column dfc [''grade'', ''subject''] = None" and "2 \<le> min_weeks"
    and "sid \<in> set (map student_id (rows dfc))"
  shows "\<exists>r. student_risk fmt dfc threshold min_weeks decline_threshold sid = Inr r"
proof -
  obtain r0 rest where sd: "filter (\<lambda>r. student_id r = sid) (rows dfc) = r0 # rest"
    using assms(3) by (cases "filter (\<lambda>r. student_id r = sid) (rows dfc)")
      (auto simp: filter_empty_conv)
  obtain f3 where "trend_factors fmt dfc min_weeks decline_threshold
           (filter (\<lambda>r. student_id r = sid) (rows dfc)) = Inr f3"
    using trend_factors_total [OF assms(2)] by blast
  from student_risk_unfold [OF assms(1) this sd, of threshold] show ?thesis
    by (metis (full_types))
qed






lemma ensure_week_id: "has_column df ''week'' \<Longrightarrow> ensure_week iso_week df = df"
  by (simp add: ensure_week_def)

text \<open>With at least two weeks required for the trend, every fit is determined.\<close>

lemma identify_returns:
  assumes "missing_column (ensure_week iso_week df) [''student_id'', ''grade'', ''subject''] = None"
    and "2 \<le> min_weeks"
  shows "\<exists>results.
      for_each (student_risk fmt (ensure_week iso_week df) threshold min_weeks decline_threshold)
        (unique (map student_id (rows (ensure_week iso_week df)))) = Inr results
    \<and> identify_at_risk_students fmt iso_week df threshold min_weeks decline_threshold
        = Inr (sort_key risk_order (present results))"
proof -
  let ?dfc = "ensure_week iso_week df"
  have m1: "missing_column ?dfc [''student_id''] = None"
    and m2: "missing_column ?dfc [''grade'', ''subject''] = None"
    using assms(1) by (simp_all add: missing_column_None)
  have "\<exists>r. student_risk fmt ?dfc threshold min_weeks decline_threshold sid = Inr r"
    if "sid \<in> set (unique (map student_id (rows ?dfc)))" for sid
    using student_risk_total [OF m2 assms(2), of sid] that by simp
  from for_each_total [of _ "student_risk fmt ?dfc threshold min_weeks decline_threshold", OF this]
  obtain results where
    "for_each (student_risk fmt ?dfc threshold min_weeks decline_threshold)
        (unique (map student_id (rows ?dfc))) = Inr results" by blast
  then show ?thesis
    by (simp add: identify_at_risk_students_def Let_def m1 bind_result_def)
qed

lemma polyfit_six:
  "polyfit (arange 6) [8, 8, 8, 8, 4, 4] = Inr (- 32 / 35, 188 / 21)"
  by (simp add: polyfit_def arange_def upt_rec)

lemma trend_factors_six:
  assumes "has_column df ''week''"
    and "map snd (weekly_grades sd) = [8, 8, 8, 8, 4, 4]"
  shows "trend_factors fmt df 3 1.5 sd
           = Inr [declining_text fmt (- 32 / 35), sharp_drop_text fmt 8 (16 / 3)]"
proof -
  have "length (map snd (weekly_grades sd)) = 6" unfolding assms(2) by simp
  then have len: "length (weekly_grades sd) = 6" by simp
  then have nu: "nunique (map week sd) = 6" by (simp add: length_weekly_grades)
  have pf: "polyfit (arange (length [8, 8, 8, 8, 4, 4 :: real])) [8, 8, 8, 8, 4, 4]
              = Inr (- 32 / 35, 188 / 21)"
    by (simp add: polyfit_def arange_def upt_rec)
  have h1: "series_mean (take (length [8, 8, 8, 8, 4, 4 :: real] div 2) [8, 8, 8, 8, 4, 4]) = Some 8"
    and h2: "series_mean (drop (length [8, 8, 8, 8, 4, 4 :: real] div 2) [8, 8, 8, 8, 4, 4])
              = Some (16 / 3)"
    by (simp_all add: series_mean_def)
  show ?thesis
    unfolding trend_factors_def Let_def assms(2) pf h1 h2 bind_result_def
    using assms(1) by (simp add: nu len)
qed

text \<open>
  C5: let the table, with the week derived from the date if it has no week column, have
  the columns \<open>week\<close>, \<open>student_id\<close>, \<open>grade\<close> and \<open>subject\<close>. A student whose weekly mean
  grades are 8, 8, 8, 8, 4, 4 has a row in the result of \<open>identify_at_risk_students\<close> with
  threshold 5.0, \<open>min_weeks\<close> 3 and \<open>decline_threshold\<close> 1.5, and the row has both
  factors: the declining trend, the least-squares slope against the positions 0 to 5
  being -32/35, below -0.2, and the sharp drop, the means of the halves split at
  \<open>6 div 2\<close> being 8 and 16/3, which differ by more than 1.5.
\<close>

theorem declining_and_sharp_drop_flagged:
  assumes "has_column (ensure_week iso_week df) ''week''"
    and "missing_column (ensure_week iso_week df) [''student_id'', ''grade'', ''subject''] = None"
    and "sid \<in> set (map student_id (rows (ensure_week iso_week df)))"
    and "map snd (weekly_grades (filter (\<lambda>r. student_id r = sid)
                                     (rows (ensure_week iso_week df))))
           = [8, 8, 8, 8, 4, 4]"
  shows "\<exists>out row.
      identify_at_risk_students fmt iso_week df 5.0 3 1.5 = Inr out
    \<and> row \<in> set out \<and> rr_student_id row = sid
    \<and> polyfit (arange 6) [8, 8, 8, 8, 4, 4] = Inr (- 32 / 35, 188 / 21)
    \<and> - 32 / 35 < (- 0.2 :: real)
    \<and> declining_text fmt (- 32 / 35) \<in> set (risk_factors row)
    \<and> series_mean (take (6 div 2) [8, 8, 8, 8, 4, 4]) = Some 8
    \<and> series_mean (drop (6 div 2) [8, 8, 8, 8, 4, 4]) = Some (16 / 3)
    \<and> (1.5 :: real) < 8 - 16 / 3
    \<and> sharp_drop_text fmt 8 (16 / 3) \<in> set (risk_factors row)"
proof -
  let ?dfc = "ensure_week iso_week df"
  let ?sd = "filter (\<lambda>r. student_id r = sid) (rows ?dfc)"
  have m2: "missing_column ?dfc [''grade'', ''subject''] = None"
    using assms(2) by (simp add: missing_column_None)
  obtain r0 rest where sd: "?sd = r0 # rest"
    using assms(3) by (cases ?sd) (auto simp: filter_empty_conv)
  have tf: "trend_factors fmt ?dfc 3 1.5 ?sd
           = Inr [declining_text fmt (- 32 / 35), sharp_drop_text fmt 8 (16 / 3)]"
    by (rule trend_factors_six [OF assms(1) assms(4)])
  from student_risk_unfold [OF m2 tf sd, of "5.0"] obtain f1 f2 f4 row where
    row: "student_risk fmt ?dfc 5.0 3 1.5 sid = Inr (Some row)"
    and fac: "risk_factors row
      = f1 @ f2 @ [declining_text fmt (- 32 / 35), sharp_drop_text fmt 8 (16 / 3)] @ f4"
    and id: "rr_student_id row = sid"
    by force
  from identify_returns [OF assms(2), of 3 fmt "5.0" "1.5"] obtain results where
    fe: "for_each (student_risk fmt ?dfc 5.0 3 1.5) (unique (map student_id (rows ?dfc)))
           = Inr results"
    and out: "identify_at_risk_students fmt iso_week df 5.0 3 1.5
        = Inr (sort_key risk_order (present results))"
    by auto
  have "sid \<in> set (unique (map student_id (rows ?dfc)))" using assms(3) by simp
  from for_each_image [OF fe this] have "Some row \<in> set results" using row by auto
  then have mem: "row \<in> set (sort_key risk_order (present results))"
    by (simp add: set_present)
  have h1: "series_mean (take (6 div 2) [8, 8, 8, 8, 4, 4]) = Some 8"
    and h2: "series_mean (drop (6 div 2) [8, 8, 8, 8, 4, 4]) = Some (16 / 3)"
    by (simp_all add: series_mean_def)
  show ?thesis
    apply (rule exI [of _ "sort_key risk_order (present results)"])
    apply (rule exI [of _ row])
    apply (intro conjI)
    apply (rule out)
    apply (rule mem)
    apply (rule id)
    apply (rule polyfit_six)
    apply simp
    apply (simp add: fac)
    apply (rule h1)
    apply (rule h2)
    apply simp
    apply (simp add: fac)
    done
qed

text \<open>
  C5 at a student with one grade in each of the weeks 1 to 6.
\<close>

theorem declining_and_sharp_drop_flagged_witness:
  "has_column (ensure_week first_week declining_table) ''week''
   \<and> missing_column (ensure_week first_week declining_table)
        [''student_id'', ''grade'', ''subject''] = None
   \<and> ''STD001'' \<in> set (map student_id (rows (ensure_week first_week declining_table)))
   \<and> map snd (weekly_grades (filter (\<lambda>r. student_id r = ''STD001'')
                                   (rows (ensure_week first_week declining_table))))
       = [8, 8, 8, 8, 4, 4]
   \<and> (\<exists>out row. identify_at_risk_students plain_fmt first_week declining_table 5.0 3 1.5 = Inr out
         \<and> row \<in> set out \<and> rr_student_id row = ''STD001''
         \<and> declining_text plain_fmt (- 32 / 35) \<in> set (risk_factors row)
         \<and> sharp_drop_text plain_fmt 8 (16 / 3) \<in> set (risk_factors row))"
proof -
  have e: "ensure_week first_week declining_table = declining_table"
    by (rule ensure_week_id) (simp add: declining_table_def has_column_def)
  have a: "has_column (ensure_week first_week declining_table) ''week''"
    and b: "missing_column (ensure_week first_week declining_table)
              [''student_id'', ''grade'', ''subject''] = None"
    and c: "''STD001'' \<in> set (map student_id (rows (ensure_week first_week declining_table)))"
    unfolding e
    by (simp_all add: declining_table_def has_column_def missing_column_def sample_record_def)
  have d: "map snd (weekly_grades (filter (\<lambda>r. student_id r = ''STD001'')
                                       (rows (ensure_week first_week declining_table))))
       = [8, 8, 8, 8, 4, 4]"
    unfolding e
    by (simp add: declining_table_def sample_record_def weekly_grades_def group_keys_def
        group_mean_def)
  from declining_and_sharp_drop_flagged [OF a b c d, of plain_fmt]
  have "\<exists>out row. identify_at_risk_students plain_fmt first_week declining_table 5.0 3 1.5 = Inr out
         \<and> row \<in> set out \<and> rr_student_id row = ''STD001''
         \<and> declining_text plain_fmt (- 32 / 35) \<in> set (risk_factors row)
         \<and> sharp_drop_text plain_fmt 8 (16 / 3) \<in> set (risk_factors row)"
    by blast
  with a b c d show ?thesis by blast
qed









subsection \<open>Cleaning\<close>

















end
